theory Spec2Isabelle
  imports Complex_Main
begin

section \<open>Values, errors and the library interface\<close>

text \<open>
  The service is Python on top of pandas and a forecasting engine (Prophet). The
  repository's own code (column detection, normalisation, aggregation, sanitising, the
  backtest bookkeeping, output normalisation and the request dispatcher) is embedded
  function by function. Floats are idealised as reals, a missing float (NaN) is
  \<open>None\<close>; timestamps are day numbers since 1970-01-01 (the series the code works on
  are weekly or monthly); headers are ASCII strings.
\<close>

text \<open>JSON values as Python receives them from \<open>request.get_json\<close>.\<close>

datatype jval =
    JNull
  | JBool bool
  | JInt int
  | JFloat real
  | JStr string
  | JArr "jval list"
  | JObj "(string \<times> jval) list"

text \<open>Python truthiness of a JSON value (\<open>if v:\<close>, \<open>v or []\<close>, \<open>bool(v)\<close>).\<close>

fun truthy :: "jval \<Rightarrow> bool" where
  "truthy JNull = False"
| "truthy (JBool b) = b"
| "truthy (JInt i) = (i \<noteq> 0)"
| "truthy (JFloat r) = (r \<noteq> 0)"
| "truthy (JStr s) = (s \<noteq> [])"
| "truthy (JArr xs) = (xs \<noteq> [])"
| "truthy (JObj kvs) = (kvs \<noteq> [])"

text \<open>
  Exceptions. The four conditions the pipeline raises itself are all Python
  \<open>ValueError\<close>s; \<open>Raised c msg\<close> is an exception of class \<open>c\<close> coming out of a
  library call.
\<close>

datatype py_class = PyValueError | PyKeyError | PyTypeError | PyOtherError

datatype error =
    EmptyDataset
  | ColumnNotFound
  | InvalidAggregationLevel
  | InsufficientData
  | Raised py_class string

fun error_class :: "error \<Rightarrow> py_class" where
  "error_class (Raised c m) = c"
| "error_class e = PyValueError"

text \<open>
  The pandas calls whose result is decided by pandas' date parsing and calendar logic are
  parameters of the model:
  \<^item> \<open>pd_to_datetime_ok col\<close>: \<open>pd.to_datetime(col)\<close> returns (does not raise);
  \<^item> \<open>pd_to_datetime_coerce col\<close>: \<open>pd.to_datetime(col, errors="coerce")\<close>, \<open>None\<close> is NaT;
  \<^item> \<open>pd_resample_sum rule rows\<close>: \<open>.resample(rule).sum().reset_index()\<close> of the value
    columns indexed by \<open>ds\<close>;
  \<^item> \<open>pd_infer_freq ds\<close>: \<open>pd.infer_freq\<close>, which may raise, return None or an alias;
  \<^item> \<open>pd_date_range start end freq\<close>: \<open>pd.date_range\<close>;
  \<^item> \<open>pd_isoformat t\<close>: \<open>Timestamp.date().isoformat()\<close>;
  \<^item> \<open>pd_resample_frame rule rows\<close>: the same resampling when two or more columns are
    labelled \<open>y\<close> (a frame instead of a series): the exception it raises, if any;
  \<^item> \<open>pd_from_records_irregular data\<close>: the exception the pipeline ends in when the
    \<open>data\<close> list holds anything but JSON objects.
\<close>

record pandas =
  pd_to_datetime_ok :: "jval list \<Rightarrow> bool"
  pd_to_datetime_coerce :: "jval list \<Rightarrow> int option list"
  pd_resample_sum :: "string \<Rightarrow> (int \<times> jval) list \<Rightarrow> error + (int \<times> real) list"
  pd_resample_frame :: "string \<Rightarrow> (int \<times> jval list) list \<Rightarrow> error option"
  pd_infer_freq :: "int list \<Rightarrow> error + string option"
  pd_date_range :: "int \<Rightarrow> int \<Rightarrow> string \<Rightarrow> error + int list"
  pd_isoformat :: "int \<Rightarrow> string"
  pd_from_records_irregular :: "jval list \<Rightarrow> error"

section \<open>Data frames built from the request records\<close>

type_synonym raw_record = "(string \<times> jval) list"

record data_frame =
  columns :: "string list"
  rows :: "jval list list"

text \<open>Keys in order of first appearance, as pandas orders the columns of a list of dicts.\<close>

fun first_seen :: "'a list \<Rightarrow> 'a list \<Rightarrow> 'a list" where
  "first_seen seen [] = rev seen"
| "first_seen seen (x # xs) = (if x \<in> set seen then first_seen seen xs else first_seen (x # seen) xs)"

definition cell :: "raw_record \<Rightarrow> string \<Rightarrow> jval" where
  "cell r c = (case map_of r c of None \<Rightarrow> JNull | Some v \<Rightarrow> v)"

definition from_records :: "raw_record list \<Rightarrow> data_frame" where
  "from_records records =
     (let cols = first_seen [] (concat (map (map fst) records))
      in \<lparr>columns = cols, rows = map (\<lambda>r. map (cell r) cols) records\<rparr>)"

definition df_empty :: "data_frame \<Rightarrow> bool" where
  "df_empty df = (rows df = [] \<or> columns df = [])"

text \<open>Positions of a label among the columns, and the cells of a column.\<close>

fun positions_from :: "nat \<Rightarrow> string list \<Rightarrow> string \<Rightarrow> nat list" where
  "positions_from i [] c = []"
| "positions_from i (x # xs) c =
     (if x = c then i # positions_from (Suc i) xs c else positions_from (Suc i) xs c)"

definition positions :: "string list \<Rightarrow> string \<Rightarrow> nat list" where
  "positions cols c = positions_from 0 cols c"

definition column :: "data_frame \<Rightarrow> string \<Rightarrow> jval list" where
  "column df c = (case positions (columns df) c of [] \<Rightarrow> [] | i # _ \<Rightarrow> map (\<lambda>r. r ! i) (rows df))"

section \<open>Column detection (preprocess.detect\_columns)\<close>

definition DATE_CANDIDATES :: "string list" where
  "DATE_CANDIDATES = [''tarih'', ''date'', ''gun'', ''day'', ''zaman'', ''time'']"

definition TARGET_CANDIDATES :: "string list" where
  "TARGET_CANDIDATES =
     [''satis'', ''sales'', ''miktar'', ''quantity'', ''adet'', ''amount'', ''value'', ''satis_miktari'']"

definition lower_char :: "char \<Rightarrow> char" where
  "lower_char c =
     (case map_of (zip ''ABCDEFGHIJKLMNOPQRSTUVWXYZ'' ''abcdefghijklmnopqrstuvwxyz'') c of
        None \<Rightarrow> c
      | Some l \<Rightarrow> l)"

definition str_lower :: "string \<Rightarrow> string" where
  "str_lower s = map lower_char s"

text \<open>
  \<open>lower_map = {c.lower(): c for c in df.columns}\<close>: a later column overwrites an
  earlier one with the same lower-cased name.
\<close>

definition lower_map :: "string list \<Rightarrow> string \<Rightarrow> string option" where
  "lower_map cols alias = List.find (\<lambda>c. str_lower c = alias) (rev cols)"

fun find_alias :: "string list \<Rightarrow> string list \<Rightarrow> string option" where
  "find_alias cols [] = None"
| "find_alias cols (alias # rest) =
     (case lower_map cols alias of Some c \<Rightarrow> Some c | None \<Rightarrow> find_alias cols rest)"

definition find_column :: "pandas \<Rightarrow> data_frame \<Rightarrow> string list \<Rightarrow> bool \<Rightarrow> error + string" where
  "find_column P df candidates is_date =
     (case find_alias (columns df) candidates of
        Some c \<Rightarrow> Inr c
      | None \<Rightarrow>
          if is_date then
            (case List.find (\<lambda>c. pd_to_datetime_ok P (column df c)) (columns df) of
               Some c \<Rightarrow> Inr c
             | None \<Rightarrow> Inl ColumnNotFound)
          else Inl ColumnNotFound)"

record detected =
  date_col :: string
  target_col :: string

definition detect_columns :: "pandas \<Rightarrow> data_frame \<Rightarrow> error + detected" where
  "detect_columns P df =
     (case find_column P df DATE_CANDIDATES True of
        Inl e \<Rightarrow> Inl e
      | Inr d \<Rightarrow>
          (case find_column P df TARGET_CANDIDATES False of
             Inl e \<Rightarrow> Inl e
           | Inr t \<Rightarrow> Inr \<lparr>date_col = d, target_col = t\<rparr>))"

section \<open>Schema normalisation (preprocess.normalize\_schema)\<close>

text \<open>
  \<open>rename(columns={mapping["date"]: "ds", mapping["target"]: "y"})\<close>: when both entries
  name the same column the dict literal keeps the later one, \<open>"y"\<close>.
\<close>

definition rename_col :: "detected \<Rightarrow> string \<Rightarrow> string" where
  "rename_col m c = (if c = target_col m then ''y'' else if c = date_col m then ''ds'' else c)"

text \<open>
  \<open>for c in (feature_columns or [])\<close> over the value the request carried: a list
  iterates its elements, a string its characters, an object its keys; a number or
  \<open>true\<close> is not iterable.
\<close>

fun feature_elements :: "jval \<Rightarrow> error + jval list" where
  "feature_elements (JArr xs) = Inr xs"
| "feature_elements (JStr s) = Inr (map (\<lambda>c. JStr [c]) s)"
| "feature_elements (JObj kvs) = Inr (map (\<lambda>kv. JStr (fst kv)) kvs)"
| "feature_elements v =
     (if truthy v then Inl (Raised PyTypeError ''object is not iterable'') else Inr [])"

text \<open>
  \<open>[c for c in ... if c in out.columns]\<close>: a string is kept when it is a column; any
  other hashable value is in no column index; a list or dict is unhashable.
\<close>

fun kept_labels :: "string list \<Rightarrow> jval list \<Rightarrow> error + string list" where
  "kept_labels cols [] = Inr []"
| "kept_labels cols (JStr s # es) =
     (case kept_labels cols es of
        Inl e \<Rightarrow> Inl e
      | Inr ks \<Rightarrow> Inr (if s \<in> set cols then s # ks else ks))"
| "kept_labels cols (JArr xs # es) = Inl (Raised PyTypeError ''unhashable type'')"
| "kept_labels cols (JObj kvs # es) = Inl (Raised PyTypeError ''unhashable type'')"
| "kept_labels cols (v # es) = kept_labels cols es"

text \<open>
  The normalised frame: the \<open>ds\<close> column, parsed, and the selected value columns
  \<open>["y", *kept]\<close> (a label selects every column that carries it).
\<close>

record norm_frame =
  value_columns :: "string list"
  nrows :: "(int \<times> jval list) list"

definition present_rows :: "nat list \<Rightarrow> (int option \<times> jval list) list \<Rightarrow> (int \<times> jval list) list" where
  "present_rows ypos trs =
     List.map_filter
       (\<lambda>tr. case fst tr of
                None \<Rightarrow> None
              | Some t \<Rightarrow> if list_all (\<lambda>j. snd tr ! j \<noteq> JNull) ypos then Some (t, snd tr) else None)
       trs"

definition normalize_schema :: "pandas \<Rightarrow> data_frame \<Rightarrow> detected \<Rightarrow> jval \<Rightarrow> error + norm_frame" where
  "normalize_schema P df m feature_columns =
     (let cols = map (rename_col m) (columns df) in
      case positions cols ''ds'' of
        [] \<Rightarrow> Inl (Raised PyKeyError ''ds'')
      | i # [] \<Rightarrow>
          (let ts = pd_to_datetime_coerce P (map (\<lambda>r. r ! i) (rows df));
               ypos = positions cols ''y''
           in if ypos = [] then Inl (Raised PyKeyError ''y'')
              else
                (case feature_elements feature_columns of
                   Inl e \<Rightarrow> Inl e
                 | Inr els \<Rightarrow>
                     (case kept_labels cols els of
                        Inl e \<Rightarrow> Inl e
                      | Inr kept \<Rightarrow>
                          if ''ds'' \<in> set kept
                          then Inl (Raised PyValueError ''The column label ds is not unique.'')
                          else
                            (let sel = concat (map (positions cols) (''y'' # kept))
                             in Inr \<lparr>value_columns = map (\<lambda>j. cols ! j) sel,
                                     nrows = sort_key fst
                                       (map (\<lambda>tr. (fst tr, map (\<lambda>j. snd tr ! j) sel))
                                          (present_rows ypos (zip ts (rows df))))\<rparr>))))
      | i # i' # others \<Rightarrow> Inl (Raised PyValueError ''cannot assemble with duplicate keys''))"

section \<open>Aggregation (preprocess.aggregate\_time\_series)\<close>

type_synonym float = "real option"
type_synonym series = "(int \<times> float) list"

definition aggregate_time_series ::
  "pandas \<Rightarrow> norm_frame \<Rightarrow> string \<Rightarrow> string \<Rightarrow> string \<Rightarrow> error + series" where
  "aggregate_time_series P df level weekly_rule monthly_rule =
     (if level \<notin> {''weekly'', ''monthly''} then Inl InvalidAggregationLevel
      else
        (let rule = (if level = ''weekly'' then weekly_rule else monthly_rule)
         in case positions (value_columns df) ''y'' of
              [] \<Rightarrow> Inl (Raised PyKeyError ''y'')
            | j # [] \<Rightarrow>
                (case pd_resample_sum P rule (map (\<lambda>tr. (fst tr, snd tr ! j)) (nrows df)) of
                   Inl e \<Rightarrow> Inl e
                 | Inr grouped \<Rightarrow> Inr (sort_key fst (map (\<lambda>tv. (fst tv, Some (snd tv))) grouped)))
            | j # j' # others \<Rightarrow>
                (case pd_resample_frame P rule
                        (map (\<lambda>tr. (fst tr, map (\<lambda>k. snd tr ! k) (j # j' # others))) (nrows df)) of
                   Some e \<Rightarrow> Inl e
                 | None \<Rightarrow> Inl (Raised PyValueError ''Length mismatch''))))"

section \<open>Sanitising (preprocess.sanitize\_outliers\_and\_missing)\<close>

text \<open>Median of the day gaps, floored to whole days as \<open>Timedelta.days\<close> does.\<close>

definition deltas :: "int list \<Rightarrow> int list" where
  "deltas ds = map (\<lambda>ab. snd ab - fst ab) (zip ds (tl ds))"

definition median_days :: "int list \<Rightarrow> int" where
  "median_days xs =
     (let s = sort xs; n = length s
      in if odd n then s ! (n div 2) else (s ! (n div 2 - 1) + s ! (n div 2)) div 2)"

definition infer_by_gap :: "series \<Rightarrow> string" where
  "infer_by_gap df =
     (let dl = deltas (map fst df)
      in if length dl = 0 then ''W-MON''
         else if median_days dl \<ge> 25 then ''MS''
         else if median_days dl \<ge> 6 then ''W-MON''
         else ''W-MON'')"

fun ffill :: "float \<Rightarrow> float list \<Rightarrow> float list" where
  "ffill prev [] = []"
| "ffill prev (None # ys) = prev # ffill prev ys"
| "ffill prev (Some v # ys) = Some v # ffill (Some v) ys"

definition bfill :: "float list \<Rightarrow> float list" where
  "bfill ys = rev (ffill None (rev ys))"

text \<open>\<open>Series.quantile(q)\<close>: linear interpolation between order statistics, NaN skipped.\<close>

definition quantile :: "float list \<Rightarrow> real \<Rightarrow> float" where
  "quantile ys q =
     (let v = sort (List.map_filter id ys); n = length v
      in if n = 0 then None
         else
           (let pos = real (n - 1) * q;
                lo = nat \<lfloor>pos\<rfloor>;
                hi = min (lo + 1) (n - 1)
            in Some (v ! lo + (v ! hi - v ! lo) * (pos - real lo))))"

text \<open>\<open>Series.clip(lower, upper)\<close>; a NaN bound does not clip, a NaN value stays NaN.\<close>

definition clip :: "float \<Rightarrow> float \<Rightarrow> float \<Rightarrow> float" where
  "clip lower upper y =
     (case y of
        None \<Rightarrow> None
      | Some v \<Rightarrow>
          (let v1 = (case upper of None \<Rightarrow> v | Some u \<Rightarrow> if v > u then u else v)
           in Some (case lower of None \<Rightarrow> v1 | Some l \<Rightarrow> if v < l then l else v1)))"

definition iqr_clip :: "float list \<Rightarrow> float list" where
  "iqr_clip ys =
     (case (quantile ys (25 / 100), quantile ys (75 / 100)) of
        (Some q1, Some q3) \<Rightarrow>
          (let iqr = q3 - q1;
               lower = q1 - (15 / 10) * iqr;
               upper = q3 + (15 / 10) * iqr
           in map (clip (Some lower) (Some upper)) ys)
      | _ \<Rightarrow> ys)"

definition reindex :: "series \<Rightarrow> int list \<Rightarrow> series" where
  "reindex df full_index =
     map (\<lambda>t. (t, case map_of df t of None \<Rightarrow> None | Some y \<Rightarrow> y)) full_index"

definition sanitize_outliers_and_missing :: "pandas \<Rightarrow> series \<Rightarrow> error + series" where
  "sanitize_outliers_and_missing P df =
     (if length df < 2 then Inr df
      else
        (case pd_infer_freq P (map fst df) of
           Inl e \<Rightarrow> Inl e
         | Inr f \<Rightarrow>
             (let inferred = (case f of
                                None \<Rightarrow> infer_by_gap df
                              | Some a \<Rightarrow> if a = [] then infer_by_gap df else a)
              in case pd_date_range P (Min (set (map fst df))) (Max (set (map fst df))) inferred of
                   Inl e \<Rightarrow> Inl e
                 | Inr full_index \<Rightarrow>
                     if \<not> distinct (map fst df)
                     then Inl (Raised PyValueError ''cannot reindex on an axis with duplicate labels'')
                     else
                       (let out = reindex df full_index;
                            ys = bfill (ffill None (map snd out))
                        in Inr (zip (map fst out) (iqr_clip ys))))))"

section \<open>The forecaster (predictor.EnsembleForecaster)\<close>

text \<open>
  The forecasting engine is a black box: \<open>E df periods rule\<close> stands for fitting a
  model on \<open>df\<close>, building \<open>periods\<close> future timestamps with frequency \<open>rule\<close>
  (history excluded) and predicting them; it may raise. Every call is recorded, so that
  "the backtest ran" and "the forecaster was not invoked" are statements about the list
  of calls.
\<close>

record forecast_row =
  ds :: int
  yhat :: real
  yhat_lower :: real
  yhat_upper :: real

record forecast_frame =
  fcolumns :: "string list"
  frows :: "forecast_row list"

type_synonym engine = "series \<Rightarrow> int \<Rightarrow> string \<Rightarrow> error + forecast_row list"
type_synonym engine_call = "series \<times> int \<times> string"

record EnsembleForecaster =
  frequency :: string
  horizon :: int
  ef_return_confidence :: bool
  ef_weekly_rule :: string
  ef_monthly_rule :: string

definition freq_rule :: "EnsembleForecaster \<Rightarrow> string" where
  "freq_rule f = (if frequency f = ''monthly'' then ef_monthly_rule f else ef_weekly_rule f)"

text \<open>\<open>n_val = max(0, min(max(4, self.horizon), max(2, len(df) // 3)))\<close>\<close>

definition n_val :: "nat \<Rightarrow> int \<Rightarrow> int" where
  "n_val L h = max 0 (min (max 4 h) (max 2 (int L div 3)))"

definition backtest_due :: "nat \<Rightarrow> int \<Rightarrow> bool" where
  "backtest_due L h = (int L \<ge> n_val L h + 5 \<and> n_val L h \<ge> 2)"

record metrics =
  mae :: "float option"
  rmse :: "float option"
  mape :: "float option"

definition null_metrics :: metrics where
  "null_metrics = \<lparr>mae = None, rmse = None, mape = None\<rparr>"

text \<open>\<open>Series.mean()\<close>: NaN entries are skipped, the mean of nothing is NaN.\<close>

definition fmean :: "float list \<Rightarrow> float" where
  "fmean xs =
     (let v = List.map_filter id xs
      in if v = [] then None else Some (sum_list v / real (length v)))"

text \<open>\<open>val_df.merge(bt_forecast, on="ds", how="inner")\<close>: pairs of true and predicted value.\<close>

definition merge_inner :: "series \<Rightarrow> forecast_row list \<Rightarrow> (float \<times> real) list" where
  "merge_inner val_df bt =
     concat (map (\<lambda>ty. map (\<lambda>r. (snd ty, yhat r)) (filter (\<lambda>r. ds r = fst ty) bt)) val_df)"

definition backtest_metrics :: "(float \<times> real) list \<Rightarrow> metrics" where
  "backtest_metrics merged =
     (if length merged \<ge> 2 then
        (let err = map (\<lambda>yp. map_option (\<lambda>v. v - snd yp) (fst yp)) merged;
             non_zero = filter (\<lambda>yp. fst yp \<noteq> Some 0) merged
         in \<lparr>mae = Some (fmean (map (map_option abs) err)),
             rmse = Some (map_option sqrt (fmean (map (map_option (\<lambda>e. e ^ 2)) err))),
             mape = (if non_zero \<noteq> []
                     then Some (map_option (\<lambda>m. m * 100)
                            (fmean (map (\<lambda>yp. map_option (\<lambda>v. \<bar>v - snd yp\<bar> / v) (fst yp)) non_zero)))
                     else None)\<rparr>)
      else null_metrics)"

record model_info =
  algorithm :: string
  accuracy_mae :: "float option"
  accuracy_rmse :: "float option"
  accuracy_mape :: "float option"
  backtest_points :: int

record data_summary =
  input_rows :: int
  date_range :: string
  features_used :: "string list"

text \<open>The date of an extremal timestamp of a column; an empty column gives NaT.\<close>

definition date_of_min :: "pandas \<Rightarrow> int list \<Rightarrow> string" where
  "date_of_min P ts = (if ts = [] then ''NaT'' else pd_isoformat P (Min (set ts)))"

definition date_of_max :: "pandas \<Rightarrow> int list \<Rightarrow> string" where
  "date_of_max P ts = (if ts = [] then ''NaT'' else pd_isoformat P (Max (set ts)))"

definition summarise ::
  "pandas \<Rightarrow> EnsembleForecaster \<Rightarrow> series \<Rightarrow> forecast_row list \<Rightarrow> metrics \<Rightarrow> int
     \<Rightarrow> forecast_frame \<times> model_info \<times> data_summary" where
  "summarise P f df out m nv =
     (\<lparr>fcolumns = (if ef_return_confidence f then [''ds'', ''yhat'', ''yhat_lower'', ''yhat_upper'']
                   else [''ds'', ''yhat'']),
       frows = sort_key ds out\<rparr>,
      \<lparr>algorithm = ''Ensemble (Prophet)'',
       accuracy_mae = mae m,
       accuracy_rmse = rmse m,
       accuracy_mape = mape m,
       backtest_points = nv\<rparr>,
      \<lparr>input_rows = int (length df),
       date_range = date_of_min P (map fst df) @ '' to '' @ date_of_max P (map fst df),
       features_used = [''trend'', ''weekly_seasonality'', ''yearly_seasonality'']\<rparr>)"

definition fit_predict ::
  "pandas \<Rightarrow> engine \<Rightarrow> EnsembleForecaster \<Rightarrow> series
     \<Rightarrow> engine_call list \<times> (error + forecast_frame \<times> model_info \<times> data_summary)" where
  "fit_predict P E f df =
     (let rule = freq_rule f in
      case E df (horizon f) rule of
        Inl e \<Rightarrow> ([(df, horizon f, rule)], Inl e)
      | Inr out \<Rightarrow>
          (let nv = n_val (length df) (horizon f) in
           if int (length df) \<ge> nv + 5 \<and> nv \<ge> 2 then
             (let train_df = take (length df - nat nv) df;
                  val_df = drop (length df - nat nv) df
              in case E train_df nv rule of
                   Inl e \<Rightarrow> ([(df, horizon f, rule), (train_df, nv, rule)], Inl e)
                 | Inr bt \<Rightarrow>
                     ([(df, horizon f, rule), (train_df, nv, rule)],
                      Inr (summarise P f df out (backtest_metrics (merge_inner val_df bt)) nv)))
           else ([(df, horizon f, rule)], Inr (summarise P f df out null_metrics nv))))"

section \<open>The orchestrator (pipeline.PredictionPipeline)\<close>

record PredictionPipeline =
  prediction_frequency :: string
  aggregation_level :: string
  prediction_period :: int
  feature_columns :: jval
  return_confidence :: bool
  min_data_points :: int
  weekly_rule :: string
  monthly_rule :: string
  non_negative :: bool

record result =
  success :: bool
  data_summary :: data_summary
  predictions :: "(string \<times> jval) list list"
  model_info :: model_info

text \<open>\<open>row.get("yhat\_lower", None)\<close>: the value when the frame has the column.\<close>

definition row_get :: "forecast_frame \<Rightarrow> string \<Rightarrow> real \<Rightarrow> real option" where
  "row_get fdf c v = (if c \<in> set (fcolumns fdf) then Some v else None)"

definition floor0 :: "bool \<Rightarrow> real \<Rightarrow> real" where
  "floor0 nn v = (if nn then max 0 v else v)"

definition bound_json :: "real option \<Rightarrow> jval" where
  "bound_json b = (case b of None \<Rightarrow> JNull | Some v \<Rightarrow> JFloat v)"

definition prediction_item ::
  "pandas \<Rightarrow> PredictionPipeline \<Rightarrow> forecast_frame \<Rightarrow> forecast_row \<Rightarrow> (string \<times> jval) list" where
  "prediction_item P pl fdf row =
     (let yh = floor0 (non_negative pl) (yhat row);
          lo = map_option (floor0 (non_negative pl)) (row_get fdf ''yhat_lower'' (yhat_lower row));
          hi = map_option (floor0 (non_negative pl)) (row_get fdf ''yhat_upper'' (yhat_upper row))
      in [(''date'', JStr (pd_isoformat P (ds row))), (''predicted_value'', JFloat yh)]
         @ (if return_confidence pl \<and> {''yhat_lower'', ''yhat_upper''} \<subseteq> set (fcolumns fdf)
            then [(''confidence_lower'', bound_json lo), (''confidence_upper'', bound_json hi)]
            else []))"

text \<open>The algorithm label: an "ensemble" that names no second model is called Prophet.\<close>

definition is_space :: "char \<Rightarrow> bool" where
  "is_space c = (c \<in> set [CHR '' '', CHR 0x09, CHR 0x0A, CHR 0x0B, CHR 0x0C, CHR 0x0D])"

definition strip :: "string \<Rightarrow> string" where
  "strip s = rev (dropWhile is_space (rev (dropWhile is_space s)))"

definition startswith :: "string \<Rightarrow> string \<Rightarrow> bool" where
  "startswith s p = (take (length p) s = p)"

fun contains :: "string \<Rightarrow> string \<Rightarrow> bool" where
  "contains [] sub = (sub = [])"
| "contains (c # cs) sub = (startswith (c # cs) sub \<or> contains cs sub)"

definition normalize_algorithm :: "string \<Rightarrow> string" where
  "normalize_algorithm a =
     (let algo = (if a = [] then ''Prophet'' else a)
      in if startswith (str_lower (strip algo)) ''ensemble'' \<and> \<not> contains (str_lower algo) ''xgboost''
         then ''Prophet'' else algo)"

definition normalize_output ::
  "pandas \<Rightarrow> PredictionPipeline \<Rightarrow> forecast_frame \<times> model_info \<times> data_summary \<Rightarrow> result" where
  "normalize_output P pl fmd =
     (let fdf = fst fmd; mi = fst (snd fmd); dsum = snd (snd fmd)
      in \<lparr>success = True,
          data_summary =
            \<lparr>input_rows = input_rows dsum,
             date_range = date_range dsum,
             features_used =
               (if features_used dsum = []
                then [''trend'', ''weekly_seasonality'', ''yearly_seasonality'']
                else features_used dsum)\<rparr>,
          predictions =
            (if frows fdf = [] then [] else map (prediction_item P pl fdf) (sort_key ds (frows fdf))),
          model_info = mi\<lparr>algorithm := normalize_algorithm (algorithm mi)\<rparr>\<rparr>)"

definition forecaster_of :: "PredictionPipeline \<Rightarrow> EnsembleForecaster" where
  "forecaster_of pl =
     \<lparr>frequency = prediction_frequency pl,
      horizon = prediction_period pl,
      ef_return_confidence = return_confidence pl,
      ef_weekly_rule = weekly_rule pl,
      ef_monthly_rule = monthly_rule pl\<rparr>"

text \<open>
  The steps of \<open>run\<close> up to the aggregated series (detection, normalisation,
  aggregation), and up to the clean series (the sanitizer applied to it).
\<close>

definition aggregated :: "pandas \<Rightarrow> PredictionPipeline \<Rightarrow> raw_record list \<Rightarrow> error + series" where
  "aggregated P pl records =
     (let df = from_records records in
      if df_empty df then Inl EmptyDataset
      else
        (case detect_columns P df of
           Inl e \<Rightarrow> Inl e
         | Inr detected \<Rightarrow>
             (case normalize_schema P df detected (feature_columns pl) of
                Inl e \<Rightarrow> Inl e
              | Inr df_norm \<Rightarrow>
                  aggregate_time_series P df_norm (aggregation_level pl)
                    (weekly_rule pl) (monthly_rule pl))))"

definition prepare :: "pandas \<Rightarrow> PredictionPipeline \<Rightarrow> raw_record list \<Rightarrow> error + series" where
  "prepare P pl records =
     (case aggregated P pl records of
        Inl e \<Rightarrow> Inl e
      | Inr df_agg \<Rightarrow> sanitize_outliers_and_missing P df_agg)"

definition run ::
  "pandas \<Rightarrow> engine \<Rightarrow> PredictionPipeline \<Rightarrow> raw_record list
     \<Rightarrow> engine_call list \<times> (error + result)" where
  "run P E pl records =
     (case prepare P pl records of
        Inl e \<Rightarrow> ([], Inl e)
      | Inr df_clean \<Rightarrow>
          if int (length df_clean) < min_data_points pl then ([], Inl InsufficientData)
          else
            (case fit_predict P E (forecaster_of pl) df_clean of
               (calls, Inl e) \<Rightarrow> (calls, Inl e)
             | (calls, Inr fmd) \<Rightarrow> (calls, Inr (normalize_output P pl fmd))))"

definition build_pipeline :: "string \<Rightarrow> string \<Rightarrow> int \<Rightarrow> jval \<Rightarrow> bool \<Rightarrow> int \<Rightarrow> PredictionPipeline" where
  "build_pipeline pf al pp fc rc mdp =
     \<lparr>prediction_frequency = pf,
      aggregation_level = al,
      prediction_period = pp,
      feature_columns = (if truthy fc then fc else JArr []),
      return_confidence = rc,
      min_data_points = mdp,
      weekly_rule = ''W-MON'',
      monthly_rule = ''MS'',
      non_negative = True\<rparr>"

section \<open>The request dispatcher (routes.predict)\<close>

datatype message =
    Invalid_json
  | Data_required
  | Period_required
  | Frequency_required
  | Exception_text error

text \<open>
  Response bodies: a structured error, the asynchronous acknowledgement (the request id
  is \<open>"req\_"\<close> followed by the clock's seconds), the pipeline's result, or the
  framework's own page for an exception nobody caught.
\<close>

datatype body =
    Error_body string message
  | Ack_body int jval
  | Result_body result
  | Unhandled py_class

record response =
  status :: nat
  body :: body

text \<open>The background unit the asynchronous path starts: callback address, request id, pipeline, data.\<close>

datatype background = Background jval int PredictionPipeline "jval list"

record outcome =
  response :: response
  background :: "background option"
  engine_calls :: "engine_call list"

definition reply :: "nat \<Rightarrow> body \<Rightarrow> outcome" where
  "reply st b = \<lparr>response = \<lparr>status = st, body = b\<rparr>, background = None, engine_calls = []\<rparr>"

definition bad_request :: "message \<Rightarrow> string \<Rightarrow> outcome" where
  "bad_request msg code = reply 400 (Error_body code msg)"

definition unprocessable :: "message \<Rightarrow> string \<Rightarrow> outcome" where
  "unprocessable msg code = reply 422 (Error_body code msg)"

text \<open>\<open>payload.get(key)\<close>: a missing key and a JSON null both read as None.\<close>

definition payload_get :: "(string \<times> jval) list \<Rightarrow> string \<Rightarrow> jval" where
  "payload_get payload k = (case map_of payload k of None \<Rightarrow> JNull | Some v \<Rightarrow> v)"

text \<open>
  \<open>isinstance(prediction\_period, int) and prediction\_period > 0\<close>; Python's \<open>True\<close> is
  the int 1.
\<close>

fun valid_period :: "jval \<Rightarrow> int option" where
  "valid_period (JInt i) = (if i \<le> 0 then None else Some i)"
| "valid_period (JBool b) = (if b then Some 1 else None)"
| "valid_period v = None"

definition CALLBACK_KEYS :: "string list" where
  "CALLBACK_KEYS = [''callback'', ''webhook'', ''notify'', ''async'', ''background'']"

text \<open>The loop over \<open>payload.items()\<close> that stops at the first indicator key.\<close>

fun find_callback :: "(string \<times> jval) list \<Rightarrow> jval" where
  "find_callback [] = JNull"
| "find_callback ((key, v) # rest) =
     (if str_lower key \<in> set CALLBACK_KEYS then v else find_callback rest)"

fun as_record :: "jval \<Rightarrow> raw_record option" where
  "as_record (JObj kvs) = Some kvs"
| "as_record v = None"

fun as_records :: "jval list \<Rightarrow> raw_record list option" where
  "as_records [] = Some []"
| "as_records (v # vs) =
     (case as_record v of
        None \<Rightarrow> None
      | Some r \<Rightarrow> (case as_records vs of None \<Rightarrow> None | Some rs \<Rightarrow> Some (r # rs)))"

text \<open>\<open>pipeline.run(data)\<close> on the request's \<open>data\<close> list.\<close>

definition run_data ::
  "pandas \<Rightarrow> engine \<Rightarrow> PredictionPipeline \<Rightarrow> jval list \<Rightarrow> engine_call list \<times> (error + result)" where
  "run_data P E pl data =
     (case as_records data of
        None \<Rightarrow> ([], Inl (pd_from_records_irregular P data))
      | Some records \<Rightarrow> run P E pl records)"

text \<open>The synchronous branch: run the pipeline and translate its failure.\<close>

definition respond_sync :: "engine_call list \<times> (error + result) \<Rightarrow> outcome" where
  "respond_sync cr =
     (case snd cr of
        Inr res \<Rightarrow> (reply 200 (Result_body res))\<lparr>engine_calls := fst cr\<rparr>
      | Inl e \<Rightarrow>
          (if error_class e = PyValueError
           then unprocessable (Exception_text e) ''insufficient_data''
           else reply 500 (Error_body ''internal_error'' (Exception_text e)))\<lparr>engine_calls := fst cr\<rparr>)"

text \<open>
  \<open>predict\<close>: \<open>request_json\<close> is the parsed body (\<open>None\<close> when it is not JSON),
  \<open>MIN_DATA_POINTS\<close> the configured minimum, \<open>now\<close> the clock in seconds.
\<close>

definition predict :: "pandas \<Rightarrow> engine \<Rightarrow> int \<Rightarrow> int \<Rightarrow> jval option \<Rightarrow> outcome" where
  "predict P E MIN_DATA_POINTS now request_json =
     (case request_json of
        None \<Rightarrow> bad_request Invalid_json ''bad_request''
      | Some (JObj payload) \<Rightarrow>
          (let data = payload_get payload ''data'';
               period_value = payload_get payload ''prediction_period'';
               frequency_value = payload_get payload ''prediction_frequency'';
               features_value = payload_get payload ''feature_columns'';
               confidence_interval = truthy (payload_get payload ''confidence_interval'')
           in case data of
                JArr items \<Rightarrow>
                  if items = [] then bad_request Data_required ''missing_parameter''
                  else
                    (case valid_period period_value of
                       None \<Rightarrow> bad_request Period_required ''missing_parameter''
                     | Some period \<Rightarrow>
                         if \<not> truthy frequency_value
                         then bad_request Frequency_required ''missing_parameter''
                         else
                           (case frequency_value of
                              JArr xs \<Rightarrow> reply 500 (Unhandled PyTypeError)
                            | JObj kvs \<Rightarrow> reply 500 (Unhandled PyTypeError)
                            | JStr freq \<Rightarrow>
                                if freq \<notin> {''weekly'', ''monthly''}
                                then bad_request Frequency_required ''missing_parameter''
                                else
                                  (let callback_url = find_callback payload;
                                       pipeline = build_pipeline freq freq period features_value
                                                    confidence_interval MIN_DATA_POINTS
                                   in if truthy callback_url
                                      then \<lparr>response = \<lparr>status = 200, body = Ack_body now callback_url\<rparr>,
                                            background = Some (Background callback_url now pipeline items),
                                            engine_calls = []\<rparr>
                                      else respond_sync (run_data P E pipeline items))
                            | other \<Rightarrow> bad_request Frequency_required ''missing_parameter''))
              | other \<Rightarrow> bad_request Data_required ''missing_parameter'')
      | Some other \<Rightarrow> reply 500 (Unhandled PyOtherError))"

section \<open>A reference instance of the library interface\<close>

text \<open>
  For evaluating the model on concrete requests: pandas' documented behaviour on ISO
  dates and on the two anchors the service uses (weeks labelled by the Monday that closes
  them, months labelled by their first day), and a persistence forecaster in the place
  of the engine. Day 0 is Thursday 1970-01-01, so Mondays are the days \<open>d\<close> with
  \<open>d mod 7 = 4\<close>.
\<close>

definition days_from_civil :: "int \<Rightarrow> int \<Rightarrow> int \<Rightarrow> int" where
  "days_from_civil y m d =
     (let y1 = (if m \<le> 2 then y - 1 else y);
          era = y1 div 400;
          yoe = y1 - era * 400;
          doy = (153 * (if m > 2 then m - 3 else m + 9) + 2) div 5 + d - 1;
          doe = yoe * 365 + yoe div 4 - yoe div 100 + doy
      in era * 146097 + doe - 719468)"

definition civil_from_days :: "int \<Rightarrow> int \<times> int \<times> int" where
  "civil_from_days z0 =
     (let z = z0 + 719468;
          era = z div 146097;
          doe = z - era * 146097;
          yoe = (doe - doe div 1460 + doe div 36524 - doe div 146096) div 365;
          doy = doe - (365 * yoe + yoe div 4 - yoe div 100);
          mp = (5 * doy + 2) div 153;
          d = doy - (153 * mp + 2) div 5 + 1;
          m = (if mp < 10 then mp + 3 else mp - 9);
          y = yoe + era * 400
      in (if m \<le> 2 then y + 1 else y, m, d))"

definition digit_of :: "char \<Rightarrow> int option" where
  "digit_of c = map_of (zip ''0123456789'' [0, 1, 2, 3, 4, 5, 6, 7, 8, 9]) c"

fun number_of :: "int \<Rightarrow> string \<Rightarrow> int option" where
  "number_of acc [] = Some acc"
| "number_of acc (c # cs) =
     (case digit_of c of None \<Rightarrow> None | Some k \<Rightarrow> number_of (10 * acc + k) cs)"

text \<open>An ISO calendar date \<open>YYYY-MM-DD\<close>; anything else does not parse.\<close>

definition parse_iso :: "string \<Rightarrow> int option" where
  "parse_iso s =
     (if length s = 10 \<and> s ! 4 = CHR ''-'' \<and> s ! 7 = CHR ''-'' then
        (case (number_of 0 (take 4 s), number_of 0 (take 2 (drop 5 s)), number_of 0 (drop 8 s)) of
           (Some y, Some m, Some d) \<Rightarrow>
             if civil_from_days (days_from_civil y m d) = (y, m, d)
             then Some (days_from_civil y m d) else None
         | _ \<Rightarrow> None)
      else None)"

fun ref_parse :: "jval \<Rightarrow> int option" where
  "ref_parse (JStr s) = parse_iso s"
| "ref_parse v = None"

definition ref_to_datetime_ok :: "jval list \<Rightarrow> bool" where
  "ref_to_datetime_ok col = list_all (\<lambda>v. v = JNull \<or> ref_parse v \<noteq> None) col"

definition digit_char :: "int \<Rightarrow> char" where
  "digit_char k = ''0123456789'' ! nat (k mod 10)"

definition ref_isoformat :: "int \<Rightarrow> string" where
  "ref_isoformat t =
     (case civil_from_days t of
        (y, m, d) \<Rightarrow>
          [digit_char (y div 1000), digit_char (y div 100), digit_char (y div 10), digit_char y,
           CHR ''-'', digit_char (m div 10), digit_char m,
           CHR ''-'', digit_char (d div 10), digit_char d])"

definition on_anchor :: "string \<Rightarrow> int \<Rightarrow> bool" where
  "on_anchor rule t =
     (if rule = ''W-MON'' then t mod 7 = 4 else snd (snd (civil_from_days t)) = 1)"

definition ref_date_range :: "int \<Rightarrow> int \<Rightarrow> string \<Rightarrow> error + int list" where
  "ref_date_range a b rule =
     (if rule \<in> {''W-MON'', ''MS''} then Inr (filter (on_anchor rule) [a..b])
      else Inl (Raised PyValueError ''Invalid frequency''))"

text \<open>The label of the bucket a day falls into.\<close>

definition bucket :: "string \<Rightarrow> int \<Rightarrow> int" where
  "bucket rule t =
     (if rule = ''W-MON'' then t + (4 - t) mod 7 else t - (snd (snd (civil_from_days t)) - 1))"

fun numeric :: "jval \<Rightarrow> real option" where
  "numeric (JInt i) = Some (real_of_int i)"
| "numeric (JFloat r) = Some r"
| "numeric v = None"

definition ref_resample_sum :: "string \<Rightarrow> (int \<times> jval) list \<Rightarrow> error + (int \<times> real) list" where
  "ref_resample_sum rule trs =
     (if rule \<notin> {''W-MON'', ''MS''} then Inl (Raised PyValueError ''Invalid frequency'')
      else if \<not> list_all (\<lambda>tr. numeric (snd tr) \<noteq> None) trs
      then Inl (Raised PyTypeError ''unsupported operand type'')
      else if trs = [] then Inr []
      else
        (let labels = map (\<lambda>tr. bucket rule (fst tr)) trs
         in Inr (map (\<lambda>g. (g, sum_list (List.map_filter
                                 (\<lambda>tr. if bucket rule (fst tr) = g then numeric (snd tr) else None) trs)))
                   (filter (on_anchor rule) [Min (set labels)..Max (set labels)]))))"

definition ref_resample_frame :: "string \<Rightarrow> (int \<times> jval list) list \<Rightarrow> error option" where
  "ref_resample_frame rule trs =
     (if rule \<notin> {''W-MON'', ''MS''} then Some (Raised PyValueError ''Invalid frequency'')
      else if \<not> list_all (\<lambda>tr. list_all (\<lambda>v. numeric v \<noteq> None) (snd tr)) trs
      then Some (Raised PyTypeError ''unsupported operand type'')
      else None)"

text \<open>
  \<open>infer_freq\<close> needs three dates; of the regular spacings only the two grids of the
  aggregator are recognised here.
\<close>

definition ref_infer_freq :: "int list \<Rightarrow> error + string option" where
  "ref_infer_freq ts =
     (if length ts < 3 then Inl (Raised PyValueError ''Need at least 3 dates to infer frequency'')
      else if ts = filter (on_anchor ''W-MON'') [hd ts..last ts] then Inr (Some ''W-MON'')
      else if ts = filter (on_anchor ''MS'') [hd ts..last ts] then Inr (Some ''MS'')
      else Inr None)"

definition pandas_ref :: pandas where
  "pandas_ref =
     \<lparr>pd_to_datetime_ok = ref_to_datetime_ok,
      pd_to_datetime_coerce = map ref_parse,
      pd_resample_sum = ref_resample_sum,
      pd_resample_frame = ref_resample_frame,
      pd_infer_freq = ref_infer_freq,
      pd_date_range = ref_date_range,
      pd_isoformat = ref_isoformat,
      pd_from_records_irregular = (\<lambda>data. Raised PyTypeError ''object is not iterable'')\<rparr>"

text \<open>
  The persistence forecaster: every future period repeats the last known value, with
  the spread of the history as the band. Fewer than two known values raise, as the
  engine does.
\<close>

definition persistence :: engine where
  "persistence df periods rule =
     (let known = List.map_filter snd df in
      if length known < 2 then Inl (Raised PyValueError ''Dataframe has less than 2 non-NaN rows'')
      else
        (let t0 = Max (set (map fst df));
             spread = Max (set known) - Min (set known)
         in Inr (map (\<lambda>t. \<lparr>ds = t, yhat = last known,
                             yhat_lower = last known - spread, yhat_upper = last known + spread\<rparr>)
                   (take (nat periods) (filter (on_anchor rule) [t0 + 1..t0 + 31 * periods])))))"

section \<open>The specification's wording and the inputs used for evaluation\<close>

text \<open>
  The specification writes the holdout size as \<open>clamp(max(4, horizon), 2, floor(len/3))\<close>:
  the value, raised to the lower bound after being cut at the upper one.
\<close>

definition clamp :: "int \<Rightarrow> int \<Rightarrow> int \<Rightarrow> int" where
  "clamp x lo hi = max lo (min x hi)"

definition spec_n_val :: "nat \<Rightarrow> int \<Rightarrow> int" where
  "spec_n_val L h = clamp (max 4 h) 2 (int L div 3)"

text \<open>Three and nine consecutive Mondays from 2024-01-01 (day 19723).\<close>

definition weekly3 :: series where
  "weekly3 = [(19723, Some 5), (19730, Some 7), (19737, Some 2)]"

definition weekly9 :: series where
  "weekly9 = [(19723, Some 5), (19730, Some 7), (19737, Some 2), (19744, Some 4), (19751, Some 6),
              (19758, Some 3), (19765, Some 8), (19772, Some 5), (19779, Some 4)]"

definition forecaster4 :: EnsembleForecaster where
  "forecaster4 = \<lparr>frequency = ''weekly'', horizon = 4, ef_return_confidence = False,
                   ef_weekly_rule = ''W-MON'', ef_monthly_rule = ''MS''\<rparr>"

text \<open>
  The first alias, in priority order, that equals some header after lower-casing: the
  specification's "first alias in the list that matches an existing column name".
\<close>

definition first_alias :: "string list \<Rightarrow> string list \<Rightarrow> string option" where
  "first_alias cols candidates = List.find (\<lambda>a. a \<in> str_lower ` set cols) candidates"

text \<open>Frames for column detection: mixed case and order, no date alias, no target alias.\<close>

definition mixed_df :: data_frame where
  "mixed_df = \<lparr>columns = [''Sales'', ''DATE'', ''Tarih''],
               rows = [[JInt 5, JStr ''2024-01-01'', JStr ''2024-01-08'']]\<rparr>"

definition fallback_df :: data_frame where
  "fallback_df = \<lparr>columns = [''note'', ''when'', ''until'', ''amount''],
                  rows = [[JStr ''first'', JStr ''2024-01-01'', JStr ''2024-02-01'', JInt 5]]\<rparr>"

definition no_target_df :: data_frame where
  "no_target_df = \<lparr>columns = [''date'', ''when''],
                   rows = [[JStr ''2024-01-01'', JStr ''2024-01-01'']]\<rparr>"

definition weekly_records3 :: "raw_record list" where
  "weekly_records3 =
     [[(''Date'', JStr ''2024-01-01''), (''Sales'', JInt 5)],
      [(''Date'', JStr ''2024-01-08''), (''Sales'', JInt 7)],
      [(''Date'', JStr ''2024-01-15''), (''Sales'', JInt 2)]]"

definition pipeline_plain :: PredictionPipeline where
  "pipeline_plain = build_pipeline ''weekly'' ''weekly'' 4 JNull False 3"

definition pipeline_conf :: PredictionPipeline where
  "pipeline_conf = build_pipeline ''weekly'' ''weekly'' 4 JNull True 3"

definition request_plain :: "(string \<times> jval) list" where
  "request_plain =
     [(''data'', JArr (map JObj weekly_records3)),
      (''prediction_period'', JInt 4),
      (''prediction_frequency'', JStr ''weekly'')]"

definition result_plain :: result where
  "result_plain =
     \<lparr>success = True,
      data_summary = \<lparr>input_rows = 3, date_range = ''2024-01-01 to 2024-01-15'',
                      features_used = [''trend'', ''weekly_seasonality'', ''yearly_seasonality'']\<rparr>,
      predictions =
        [[(''date'', JStr ''2024-01-22''), (''predicted_value'', JFloat 2)],
         [(''date'', JStr ''2024-01-29''), (''predicted_value'', JFloat 2)],
         [(''date'', JStr ''2024-02-05''), (''predicted_value'', JFloat 2)],
         [(''date'', JStr ''2024-02-12''), (''predicted_value'', JFloat 2)]],
      model_info = \<lparr>algorithm = ''Prophet'', accuracy_mae = None, accuracy_rmse = None,
                     accuracy_mape = None, backtest_points = 2\<rparr>\<rparr>"

definition result_conf :: result where
  "result_conf =
     \<lparr>success = True,
      data_summary = \<lparr>input_rows = 3, date_range = ''2024-01-01 to 2024-01-15'',
                      features_used = [''trend'', ''weekly_seasonality'', ''yearly_seasonality'']\<rparr>,
      predictions =
        [[(''date'', JStr ''2024-01-22''), (''predicted_value'', JFloat 2),
          (''confidence_lower'', JFloat 0), (''confidence_upper'', JFloat 7)],
         [(''date'', JStr ''2024-01-29''), (''predicted_value'', JFloat 2),
          (''confidence_lower'', JFloat 0), (''confidence_upper'', JFloat 7)],
         [(''date'', JStr ''2024-02-05''), (''predicted_value'', JFloat 2),
          (''confidence_lower'', JFloat 0), (''confidence_upper'', JFloat 7)],
         [(''date'', JStr ''2024-02-12''), (''predicted_value'', JFloat 2),
          (''confidence_lower'', JFloat 0), (''confidence_upper'', JFloat 7)]],
      model_info = \<lparr>algorithm = ''Prophet'', accuracy_mae = None, accuracy_rmse = None,
                     accuracy_mape = None, backtest_points = 2\<rparr>\<rparr>"

text \<open>
  Four daily records (Tuesday 2 January to Wednesday 17 January 2024) that fall into three
  weekly buckets, three records of one week, and three consecutive days around a Monday.
\<close>

definition daily_records4 :: "raw_record list" where
  "daily_records4 =
     [[(''date'', JStr ''2024-01-02''), (''sales'', JInt 5)],
      [(''date'', JStr ''2024-01-09''), (''sales'', JInt 7)],
      [(''date'', JStr ''2024-01-16''), (''sales'', JInt 2)],
      [(''date'', JStr ''2024-01-17''), (''sales'', JInt 1)]]"

definition same_week_records3 :: "raw_record list" where
  "same_week_records3 =
     [[(''date'', JStr ''2024-01-02''), (''sales'', JInt 5)],
      [(''date'', JStr ''2024-01-03''), (''sales'', JInt 7)],
      [(''date'', JStr ''2024-01-04''), (''sales'', JInt 2)]]"

definition straddling_records3 :: "raw_record list" where
  "straddling_records3 =
     [[(''date'', JStr ''2024-01-07''), (''sales'', JInt 5)],
      [(''date'', JStr ''2024-01-08''), (''sales'', JInt 7)],
      [(''date'', JStr ''2024-01-09''), (''sales'', JInt 2)]]"

definition pipeline30 :: PredictionPipeline where
  "pipeline30 = build_pipeline ''weekly'' ''weekly'' 4 JNull False 30"

definition buckets3 :: series where
  "buckets3 = [(19730, Some 5), (19737, Some 7), (19744, Some 3)]"

text \<open>A request whose single row has a date column and no column under a target alias.\<close>

definition request_no_target :: "(string \<times> jval) list" where
  "request_no_target =
     [(''data'', JArr [JObj [(''date'', JStr ''2024-01-01''), (''units'', JInt 5)]]),
      (''prediction_period'', JInt 4),
      (''prediction_frequency'', JStr ''weekly'')]"

text \<open>
  The first callback-indicator entry of a payload, in the payload's key order: the key,
  lower-cased, is one of the five synonyms.
\<close>

definition first_indicator :: "(string \<times> jval) list \<Rightarrow> (string \<times> jval) option" where
  "first_indicator payload = List.find (\<lambda>kv. str_lower (fst kv) \<in> set CALLBACK_KEYS) payload"

text \<open>
  Requests with callback indicators: one key with an empty address; a truthy \<open>webhook\<close>
  followed by an empty \<open>callback\<close>; and the same two keys in the other order.
\<close>

definition request_empty_callback :: "(string \<times> jval) list" where
  "request_empty_callback = request_plain @ [(''Callback'', JStr '''')]"

definition request_webhook_first :: "(string \<times> jval) list" where
  "request_webhook_first =
     request_plain @ [(''webhook'', JStr ''http://example.org/hook''), (''callback'', JStr '''')]"

definition request_callback_first :: "(string \<times> jval) list" where
  "request_callback_first =
     request_plain @ [(''callback'', JStr ''''), (''webhook'', JStr ''http://example.org/hook'')]"

text \<open>Weekly records that carry a passthrough column \<open>store\<close>.\<close>

definition store_records3 :: "raw_record list" where
  "store_records3 =
     [[(''Date'', JStr ''2024-01-01''), (''store'', JStr ''A''), (''Sales'', JInt 5)],
      [(''Date'', JStr ''2024-01-08''), (''store'', JStr ''B''), (''Sales'', JInt 7)],
      [(''Date'', JStr ''2024-01-15''), (''store'', JStr ''A''), (''Sales'', JInt 2)]]"

text \<open>
  The specification's inner join on the timestamp: one pair of true and predicted value
  for every held-out point and every predicted row that carry the same timestamp, in the
  order of the held-out points; a timestamp present on one side only gives no pair.
\<close>

definition inner_join_on_ds :: "series \<Rightarrow> forecast_row list \<Rightarrow> (float \<times> real) list" where
  "inner_join_on_ds val_df bt = [(snd ty, yhat r). ty \<leftarrow> val_df, r \<leftarrow> bt, ds r = fst ty]"

text \<open>An engine whose predictions lie one day off the grid, so that no timestamp overlaps.\<close>

definition off_grid :: engine where
  "off_grid df periods rule =
     (case persistence df periods rule of
        Inl e \<Rightarrow> Inl e
      | Inr out \<Rightarrow> Inr (map (\<lambda>r. r\<lparr>ds := ds r + 1\<rparr>) out))"

text \<open>The plain request with the feature column list \<open>["ds"]\<close>.\<close>

definition request_ds_feature :: "(string \<times> jval) list" where
  "request_ds_feature = request_plain @ [(''feature_columns'', JArr [JStr ''ds''])]"










section \<open>The backtest of the forecaster\<close>

lemma n_val_clamp: "n_val L h = spec_n_val L h"
  by (simp add: n_val_def spec_n_val_def clamp_def max_def min_def)

lemma n_val_at_least_two: "2 \<le> n_val L h"
  by (simp add: n_val_def max_def min_def)

lemma concat_if_filter: "concat (map (\<lambda>r. if P r then [g r] else []) xs) = map g (filter P xs)"
  by (induction xs) auto

lemma merge_inner_join: "merge_inner val_df bt = inner_join_on_ds val_df bt"
  by (simp add: merge_inner_def inner_join_on_ds_def concat_if_filter)

lemma inner_join_pairs:
  "(y, p) \<in> set (inner_join_on_ds val_df bt) \<longleftrightarrow>
     (\<exists>t r. (t, y) \<in> set val_df \<and> r \<in> set bt \<and> ds r = t \<and> yhat r = p)"
proof
  assume "(y, p) \<in> set (inner_join_on_ds val_df bt)"
  then obtain ty r where "ty \<in> set val_df" "r \<in> set bt" "ds r = fst ty" "y = snd ty" "p = yhat r"
    by (auto simp: inner_join_on_ds_def)
  then have "(fst ty, y) \<in> set val_df \<and> r \<in> set bt \<and> ds r = fst ty \<and> yhat r = p"
    by simp
  then show "\<exists>t r. (t, y) \<in> set val_df \<and> r \<in> set bt \<and> ds r = t \<and> yhat r = p"
    by blast
next
  assume "\<exists>t r. (t, y) \<in> set val_df \<and> r \<in> set bt \<and> ds r = t \<and> yhat r = p"
  then obtain t r where "(t, y) \<in> set val_df" "r \<in> set bt" "ds r = t" "yhat r = p"
    by blast
  then show "(y, p) \<in> set (inner_join_on_ds val_df bt)"
    by (auto simp: inner_join_on_ds_def intro!: bexI [of _ "(t, y)"] bexI [of _ r])
qed

lemma fit_predict_due:
  assumes "E df (horizon f) (freq_rule f) = Inr out"
    and "int (length df) \<ge> n_val (length df) (horizon f) + 5"
  shows "fit_predict P E f df =
           (let nv = n_val (length df) (horizon f);
                train_df = take (length df - nat nv) df;
                val_df = drop (length df - nat nv) df
            in case E train_df nv (freq_rule f) of
                 Inl e \<Rightarrow> ([(df, horizon f, freq_rule f), (train_df, nv, freq_rule f)], Inl e)
               | Inr bt \<Rightarrow>
                   ([(df, horizon f, freq_rule f), (train_df, nv, freq_rule f)],
                    Inr (summarise P f df out (backtest_metrics (merge_inner val_df bt)) nv)))"
  using assms n_val_at_least_two [of "length df" "horizon f"]
  by (simp add: fit_predict_def Let_def)

lemma fit_predict_not_due:
  assumes "E df (horizon f) (freq_rule f) = Inr out"
    and "\<not> int (length df) \<ge> n_val (length df) (horizon f) + 5"
  shows "fit_predict P E f df =
           ([(df, horizon f, freq_rule f)],
            Inr (summarise P f df out null_metrics (n_val (length df) (horizon f))))"
  using assms by (simp add: fit_predict_def Let_def)

text \<open>
  Claim C3. For a clean series of length \<open>L\<close> and horizon \<open>h\<close> on which the engine fits:
  the holdout size is \<open>clamp(max(4, h), 2, floor(L/3))\<close>; the second engine call, the
  backtest, is made exactly when \<open>L \<ge> n_val + 5\<close> and \<open>n_val \<ge> 2\<close>; it then trains on the
  prefix without the last \<open>n_val\<close> points and predicts \<open>n_val\<close> periods for the held-out
  tail of \<open>n_val\<close> points; the metrics are computed from the inner join of that tail with
  the predictions on the timestamp, that is from exactly the pairs of a held-out value and
  a predicted value that carry the same timestamp; when the preconditions fail the three
  metrics are null; the reported \<open>backtest_points\<close> is \<open>n_val\<close> in either case.
\<close>

theorem fit_predict_backtest:
  assumes h: "E df (horizon f) (freq_rule f) = Inr out"
  shows "n_val (length df) (horizon f) = spec_n_val (length df) (horizon f)
   \<and> (length (fst (fit_predict P E f df)) = 2
        \<longleftrightarrow> int (length df) \<ge> n_val (length df) (horizon f) + 5 \<and> n_val (length df) (horizon f) \<ge> 2)
   \<and> (length (fst (fit_predict P E f df)) = 2 \<longrightarrow>
        fst (fit_predict P E f df) ! 1 =
          (take (length df - nat (n_val (length df) (horizon f))) df,
           n_val (length df) (horizon f), freq_rule f)
        \<and> take (length df - nat (n_val (length df) (horizon f))) df
            @ drop (length df - nat (n_val (length df) (horizon f))) df = df
        \<and> int (length (drop (length df - nat (n_val (length df) (horizon f))) df))
            = n_val (length df) (horizon f))
   \<and> (\<forall>bt. length (fst (fit_predict P E f df)) = 2
          \<and> E (take (length df - nat (n_val (length df) (horizon f))) df)
               (n_val (length df) (horizon f)) (freq_rule f) = Inr bt \<longrightarrow>
        (\<exists>fdf mi dsum. snd (fit_predict P E f df) = Inr (fdf, mi, dsum)
           \<and> \<lparr>mae = accuracy_mae mi, rmse = accuracy_rmse mi, mape = accuracy_mape mi\<rparr> =
               backtest_metrics
                 (inner_join_on_ds (drop (length df - nat (n_val (length df) (horizon f))) df) bt)))
   \<and> (\<forall>bt y p. (y, p) \<in> set (merge_inner (drop (length df - nat (n_val (length df) (horizon f))) df) bt)
          \<longleftrightarrow> (\<exists>t r. (t, y) \<in> set (drop (length df - nat (n_val (length df) (horizon f))) df)
                   \<and> r \<in> set bt \<and> ds r = t \<and> yhat r = p))
   \<and> (\<not> (int (length df) \<ge> n_val (length df) (horizon f) + 5 \<and> n_val (length df) (horizon f) \<ge> 2) \<longrightarrow>
        (\<exists>fdf mi dsum. snd (fit_predict P E f df) = Inr (fdf, mi, dsum)
           \<and> accuracy_mae mi = None \<and> accuracy_rmse mi = None \<and> accuracy_mape mi = None
           \<and> backtest_points mi = n_val (length df) (horizon f)))
   \<and> (\<forall>fdf mi dsum. snd (fit_predict P E f df) = Inr (fdf, mi, dsum) \<longrightarrow>
        backtest_points mi = n_val (length df) (horizon f))"
proof -
  let ?n = "n_val (length df) (horizon f)"
  let ?k = "length df - nat ?n"
  have two: "2 \<le> ?n" by (rule n_val_at_least_two)
  have 1: "?n = spec_n_val (length df) (horizon f)" by (rule n_val_clamp)
  have 5: "\<forall>bt y p. (y, p) \<in> set (merge_inner (drop ?k df) bt)
          \<longleftrightarrow> (\<exists>t r. (t, y) \<in> set (drop ?k df) \<and> r \<in> set bt \<and> ds r = t \<and> yhat r = p)"
    by (simp only: merge_inner_join inner_join_pairs) simp
  show ?thesis
  proof (cases "int (length df) \<ge> ?n + 5")
    case True
    note fp = fit_predict_due [where E = E and df = df and f = f and out = out and P = P, OF h True]
    have 2: "length (fst (fit_predict P E f df)) = 2"
      by (simp add: fp Let_def split: sum.splits)
    have 3: "fst (fit_predict P E f df) ! 1 = (take ?k df, ?n, freq_rule f)"
      by (simp add: fp Let_def split: sum.splits)
    have tail: "int (length (drop ?k df)) = ?n"
      using True two by simp
    have 4: "\<forall>bt. length (fst (fit_predict P E f df)) = 2
          \<and> E (take ?k df) ?n (freq_rule f) = Inr bt \<longrightarrow>
        (\<exists>fdf mi dsum. snd (fit_predict P E f df) = Inr (fdf, mi, dsum)
           \<and> \<lparr>mae = accuracy_mae mi, rmse = accuracy_rmse mi, mape = accuracy_mape mi\<rparr> =
               backtest_metrics (inner_join_on_ds (drop ?k df) bt))"
      by (simp add: fp Let_def merge_inner_join summarise_def)
    have 7: "\<forall>fdf mi dsum. snd (fit_predict P E f df) = Inr (fdf, mi, dsum) \<longrightarrow>
        backtest_points mi = ?n"
      by (auto simp: fp Let_def summarise_def split: sum.splits)
    from 1 2 3 tail 4 5 7 True two show ?thesis
      by (intro conjI impI) simp_all
  next
    case False
    note fp = fit_predict_not_due [where E = E and df = df and f = f and out = out and P = P, OF h False]
    have 2: "length (fst (fit_predict P E f df)) \<noteq> 2" by (simp add: fp)
    have 6: "\<exists>fdf mi dsum. snd (fit_predict P E f df) = Inr (fdf, mi, dsum)
           \<and> accuracy_mae mi = None \<and> accuracy_rmse mi = None \<and> accuracy_mape mi = None
           \<and> backtest_points mi = ?n"
      by (simp add: fp summarise_def null_metrics_def)
    have 7: "\<forall>fdf mi dsum. snd (fit_predict P E f df) = Inr (fdf, mi, dsum) \<longrightarrow>
        backtest_points mi = ?n"
      by (auto simp: fp summarise_def)
    from 1 2 5 6 7 False show ?thesis
      by (intro conjI impI allI) simp_all
  qed
qed

lemma persistence_weekly3:
  "persistence weekly3 4 ''W-MON'' =
     Inr [\<lparr>ds = 19744, yhat = 2, yhat_lower = -3, yhat_upper = 7\<rparr>,
          \<lparr>ds = 19751, yhat = 2, yhat_lower = -3, yhat_upper = 7\<rparr>,
          \<lparr>ds = 19758, yhat = 2, yhat_lower = -3, yhat_upper = 7\<rparr>,
          \<lparr>ds = 19765, yhat = 2, yhat_lower = -3, yhat_upper = 7\<rparr>]"
  by (simp add: persistence_def weekly3_def on_anchor_def List.map_filter_def Let_def)

lemma persistence_weekly9:
  "persistence weekly9 4 ''W-MON'' =
     Inr [\<lparr>ds = 19786, yhat = 4, yhat_lower = -2, yhat_upper = 10\<rparr>,
          \<lparr>ds = 19793, yhat = 4, yhat_lower = -2, yhat_upper = 10\<rparr>,
          \<lparr>ds = 19800, yhat = 4, yhat_lower = -2, yhat_upper = 10\<rparr>,
          \<lparr>ds = 19807, yhat = 4, yhat_lower = -2, yhat_upper = 10\<rparr>]"
  by (simp add: persistence_def weekly9_def on_anchor_def List.map_filter_def Let_def)

lemma persistence_train6:
  "persistence (take 6 weekly9) 3 ''W-MON'' =
     Inr [\<lparr>ds = 19765, yhat = 3, yhat_lower = -2, yhat_upper = 8\<rparr>,
          \<lparr>ds = 19772, yhat = 3, yhat_lower = -2, yhat_upper = 8\<rparr>,
          \<lparr>ds = 19779, yhat = 3, yhat_lower = -2, yhat_upper = 8\<rparr>]"
  by (simp add: persistence_def weekly9_def on_anchor_def List.map_filter_def Let_def)

lemma joined_tail3:
  "inner_join_on_ds (drop 6 weekly9)
     [\<lparr>ds = 19765, yhat = 3, yhat_lower = -2, yhat_upper = 8\<rparr>,
      \<lparr>ds = 19772, yhat = 3, yhat_lower = -2, yhat_upper = 8\<rparr>,
      \<lparr>ds = 19779, yhat = 3, yhat_lower = -2, yhat_upper = 8\<rparr>] =
   [(Some 8, 3), (Some 5, 3), (Some 4, 3)]"
  by (simp add: inner_join_on_ds_def weekly9_def)

lemma known_values:
  "List.map_filter id (Some x # ys) = x # List.map_filter id ys"
  "List.map_filter id (None # ys) = List.map_filter id ys"
  "List.map_filter id ([] :: real option list) = []"
  by (simp_all add: List.map_filter_def)

lemma metrics_tail3:
  "backtest_metrics [(Some 8, 3), (Some 5, 3), (Some 4, 3)] =
     \<lparr>mae = Some (Some (8 / 3)), rmse = Some (Some (sqrt 10)), mape = Some (Some (85 / 2))\<rparr>"
  by (simp add: backtest_metrics_def fmean_def known_values Let_def)

lemma off_grid_weekly9:
  "off_grid weekly9 4 ''W-MON'' =
     Inr [\<lparr>ds = 19787, yhat = 4, yhat_lower = -2, yhat_upper = 10\<rparr>,
          \<lparr>ds = 19794, yhat = 4, yhat_lower = -2, yhat_upper = 10\<rparr>,
          \<lparr>ds = 19801, yhat = 4, yhat_lower = -2, yhat_upper = 10\<rparr>,
          \<lparr>ds = 19808, yhat = 4, yhat_lower = -2, yhat_upper = 10\<rparr>]"
  by (simp add: off_grid_def persistence_weekly9)

lemma off_grid_train6:
  "off_grid (take 6 weekly9) 3 ''W-MON'' =
     Inr [\<lparr>ds = 19766, yhat = 3, yhat_lower = -2, yhat_upper = 8\<rparr>,
          \<lparr>ds = 19773, yhat = 3, yhat_lower = -2, yhat_upper = 8\<rparr>,
          \<lparr>ds = 19780, yhat = 3, yhat_lower = -2, yhat_upper = 8\<rparr>]"
  by (simp add: off_grid_def persistence_train6)

lemma joined_off_grid:
  "inner_join_on_ds (drop 6 weekly9)
     [\<lparr>ds = 19766, yhat = 3, yhat_lower = -2, yhat_upper = 8\<rparr>,
      \<lparr>ds = 19773, yhat = 3, yhat_lower = -2, yhat_upper = 8\<rparr>,
      \<lparr>ds = 19780, yhat = 3, yhat_lower = -2, yhat_upper = 8\<rparr>] = []"
  by (simp add: inner_join_on_ds_def weekly9_def)

theorem fit_predict_backtest_witness:
  "n_val 3 4 = 2
   \<and> length (fst (fit_predict pandas_ref persistence forecaster4 weekly3)) = 1
   \<and> (\<exists>fdf mi dsum. snd (fit_predict pandas_ref persistence forecaster4 weekly3) = Inr (fdf, mi, dsum)
        \<and> accuracy_mae mi = None \<and> accuracy_rmse mi = None \<and> accuracy_mape mi = None
        \<and> backtest_points mi = 2)
   \<and> n_val 9 4 = 3
   \<and> fst (fit_predict pandas_ref persistence forecaster4 weekly9) ! 1 = (take 6 weekly9, 3, ''W-MON'')
   \<and> (\<exists>fdf mi dsum. snd (fit_predict pandas_ref persistence forecaster4 weekly9) = Inr (fdf, mi, dsum)
        \<and> accuracy_mae mi = Some (Some (8 / 3)) \<and> accuracy_rmse mi = Some (Some (sqrt 10))
        \<and> accuracy_mape mi = Some (Some (85 / 2)))
   \<and> length (fst (fit_predict pandas_ref off_grid forecaster4 weekly9)) = 2
   \<and> (\<exists>fdf mi dsum. snd (fit_predict pandas_ref off_grid forecaster4 weekly9) = Inr (fdf, mi, dsum)
        \<and> accuracy_mae mi = None \<and> accuracy_rmse mi = None \<and> accuracy_mape mi = None)"
proof -
  have f: "horizon forecaster4 = 4" "freq_rule forecaster4 = ''W-MON''"
    by (simp_all add: forecaster4_def freq_rule_def)
  have l: "length weekly3 = 3" "length weekly9 = 9"
    by (simp_all add: weekly3_def weekly9_def)
  have n: "n_val 3 4 = 2" "n_val 9 4 = 3"
    by (simp_all add: n_val_def)
  have h3: "persistence weekly3 (horizon forecaster4) (freq_rule forecaster4) =
              Inr [\<lparr>ds = 19744, yhat = 2, yhat_lower = -3, yhat_upper = 7\<rparr>,
                   \<lparr>ds = 19751, yhat = 2, yhat_lower = -3, yhat_upper = 7\<rparr>,
                   \<lparr>ds = 19758, yhat = 2, yhat_lower = -3, yhat_upper = 7\<rparr>,
                   \<lparr>ds = 19765, yhat = 2, yhat_lower = -3, yhat_upper = 7\<rparr>]"
    by (simp only: f persistence_weekly3)
  have h9: "persistence weekly9 (horizon forecaster4) (freq_rule forecaster4) =
              Inr [\<lparr>ds = 19786, yhat = 4, yhat_lower = -2, yhat_upper = 10\<rparr>,
                   \<lparr>ds = 19793, yhat = 4, yhat_lower = -2, yhat_upper = 10\<rparr>,
                   \<lparr>ds = 19800, yhat = 4, yhat_lower = -2, yhat_upper = 10\<rparr>,
                   \<lparr>ds = 19807, yhat = 4, yhat_lower = -2, yhat_upper = 10\<rparr>]"
    by (simp only: f persistence_weekly9)
  have o9: "off_grid weekly9 (horizon forecaster4) (freq_rule forecaster4) =
              Inr [\<lparr>ds = 19787, yhat = 4, yhat_lower = -2, yhat_upper = 10\<rparr>,
                   \<lparr>ds = 19794, yhat = 4, yhat_lower = -2, yhat_upper = 10\<rparr>,
                   \<lparr>ds = 19801, yhat = 4, yhat_lower = -2, yhat_upper = 10\<rparr>,
                   \<lparr>ds = 19808, yhat = 4, yhat_lower = -2, yhat_upper = 10\<rparr>]"
    by (simp only: f off_grid_weekly9)
  note t3 = fit_predict_backtest [where E = persistence and df = weekly3 and f = forecaster4
      and P = pandas_ref, OF h3, unfolded f l n]
  note t9 = fit_predict_backtest [where E = persistence and df = weekly9 and f = forecaster4
      and P = pandas_ref, OF h9, unfolded f l n]
  note u9 = fit_predict_backtest [where E = off_grid and df = weekly9 and f = forecaster4
      and P = pandas_ref, OF o9, unfolded f l n]
  have a3: "length (fst (fit_predict pandas_ref persistence forecaster4 weekly3)) = 1"
    by (simp add: fit_predict_def f l n persistence_weekly3)
  have b3: "\<exists>fdf mi dsum. snd (fit_predict pandas_ref persistence forecaster4 weekly3) = Inr (fdf, mi, dsum)
        \<and> accuracy_mae mi = None \<and> accuracy_rmse mi = None \<and> accuracy_mape mi = None
        \<and> backtest_points mi = 2"
    using t3 [THEN conjunct2, THEN conjunct2, THEN conjunct2, THEN conjunct2, THEN conjunct2,
        THEN conjunct1] by simp
  have due9: "length (fst (fit_predict pandas_ref persistence forecaster4 weekly9)) = 2"
    using t9 [THEN conjunct2, THEN conjunct1] by simp
  have b9: "fst (fit_predict pandas_ref persistence forecaster4 weekly9) ! 1 = (take 6 weekly9, 3, ''W-MON'')"
    using t9 [THEN conjunct2, THEN conjunct2, THEN conjunct1] due9 by simp
  have c9: "\<exists>fdf mi dsum. snd (fit_predict pandas_ref persistence forecaster4 weekly9) = Inr (fdf, mi, dsum)
        \<and> accuracy_mae mi = Some (Some (8 / 3)) \<and> accuracy_rmse mi = Some (Some (sqrt 10))
        \<and> accuracy_mape mi = Some (Some (85 / 2))"
    using t9 [THEN conjunct2, THEN conjunct2, THEN conjunct2, THEN conjunct1, rule_format,
        OF conjI, OF due9]
    by (simp add: persistence_train6 joined_tail3 metrics_tail3)
  have dueo: "length (fst (fit_predict pandas_ref off_grid forecaster4 weekly9)) = 2"
    using u9 [THEN conjunct2, THEN conjunct1] by simp
  have co: "\<exists>fdf mi dsum. snd (fit_predict pandas_ref off_grid forecaster4 weekly9) = Inr (fdf, mi, dsum)
        \<and> accuracy_mae mi = None \<and> accuracy_rmse mi = None \<and> accuracy_mape mi = None"
    using u9 [THEN conjunct2, THEN conjunct2, THEN conjunct2, THEN conjunct1, rule_format,
        OF conjI, OF dueo]
    by (simp add: off_grid_train6 joined_off_grid backtest_metrics_def null_metrics_def)
  from n(1) a3 b3 n(2) b9 c9 dueo co show ?thesis by (intro conjI)
qed

section \<open>Column detection\<close>

lemma lower_map_None: "lower_map cols a = None \<longleftrightarrow> a \<notin> str_lower ` set cols"
  by (auto simp: lower_map_def find_None_iff)

lemma find_SomeD: "List.find P xs = Some x \<Longrightarrow> P x \<and> x \<in> set xs"
  by (induction xs) (auto split: if_splits)

lemma lower_map_Some: "lower_map cols a = Some c \<Longrightarrow> c \<in> set cols \<and> str_lower c = a"
  using find_SomeD [of "\<lambda>c. str_lower c = a" "rev cols" c] by (simp add: lower_map_def)

lemma find_alias_first:
  "find_alias cols cands =
     (case first_alias cols cands of None \<Rightarrow> None | Some a \<Rightarrow> lower_map cols a)"
proof (induction cands)
  case Nil
  show ?case by (simp add: first_alias_def)
next
  case (Cons a cands)
  show ?case
  proof (cases "lower_map cols a")
    case None
    then have "a \<notin> str_lower ` set cols" by (simp add: lower_map_None)
    with None Cons show ?thesis by (simp add: first_alias_def)
  next
    case (Some c)
    then have "a \<in> str_lower ` set cols" using lower_map_None [of cols a] by auto
    with Some show ?thesis by (simp add: first_alias_def)
  qed
qed

lemma first_alias_Some_in: "first_alias cols cands = Some a \<Longrightarrow> a \<in> str_lower ` set cols"
  using find_SomeD [of "\<lambda>a. a \<in> str_lower ` set cols" cands a] by (simp add: first_alias_def)

lemma find_alias_Some:
  assumes "first_alias cols cands = Some a"
  shows "\<exists>c. find_alias cols cands = Some c \<and> c \<in> set cols \<and> str_lower c = a"
proof -
  from assms have "a \<in> str_lower ` set cols" by (rule first_alias_Some_in)
  then have "lower_map cols a \<noteq> None" by (simp add: lower_map_None)
  then obtain c where c: "lower_map cols a = Some c" by blast
  from lower_map_Some [OF c] c assms show ?thesis by (simp add: find_alias_first)
qed

lemma find_alias_None: "first_alias cols cands = None \<Longrightarrow> find_alias cols cands = None"
  by (simp add: find_alias_first)

lemma find_column_error: "find_column P df cands b = Inl e \<Longrightarrow> e = ColumnNotFound"
  by (auto simp: find_column_def split: option.splits if_splits)

text \<open>
  Claim C6. The date and the target column are resolved by the first alias, in the
  priority order of the alias list, that matches a header case-insensitively, whatever
  the order of the input columns (the winning alias depends on the set of headers only);
  when no date alias matches, the date column is the first input column, in input order,
  that parses as a timestamp; the target has no fallback; and detection fails with
  ColumnNotFound exactly when one of the two is not resolved.
\<close>

theorem detect_columns_resolution:
  "(\<forall>a. first_alias (columns df) DATE_CANDIDATES = Some a \<longrightarrow>
      (\<exists>c. find_column P df DATE_CANDIDATES True = Inr c \<and> c \<in> set (columns df) \<and> str_lower c = a))
   \<and> (first_alias (columns df) DATE_CANDIDATES = None \<longrightarrow>
        find_column P df DATE_CANDIDATES True =
          (case List.find (\<lambda>c. pd_to_datetime_ok P (column df c)) (columns df) of
             Some c \<Rightarrow> Inr c
           | None \<Rightarrow> Inl ColumnNotFound))
   \<and> (\<forall>a. first_alias (columns df) TARGET_CANDIDATES = Some a \<longrightarrow>
        (\<exists>c. find_column P df TARGET_CANDIDATES False = Inr c \<and> c \<in> set (columns df) \<and> str_lower c = a))
   \<and> (first_alias (columns df) TARGET_CANDIDATES = None \<longrightarrow>
        find_column P df TARGET_CANDIDATES False = Inl ColumnNotFound)
   \<and> detect_columns P df =
        (case (find_column P df DATE_CANDIDATES True, find_column P df TARGET_CANDIDATES False) of
           (Inr d, Inr t) \<Rightarrow> Inr \<lparr>date_col = d, target_col = t\<rparr>
         | _ \<Rightarrow> Inl ColumnNotFound)
   \<and> (\<forall>cols' candidates. set cols' = set (columns df) \<longrightarrow>
        first_alias cols' candidates = first_alias (columns df) candidates)"
proof -
  have a: "\<forall>a. first_alias (columns df) DATE_CANDIDATES = Some a \<longrightarrow>
      (\<exists>c. find_column P df DATE_CANDIDATES True = Inr c \<and> c \<in> set (columns df) \<and> str_lower c = a)"
    using find_alias_Some [of "columns df" DATE_CANDIDATES] by (fastforce simp: find_column_def)
  have b: "first_alias (columns df) DATE_CANDIDATES = None \<longrightarrow>
        find_column P df DATE_CANDIDATES True =
          (case List.find (\<lambda>c. pd_to_datetime_ok P (column df c)) (columns df) of
             Some c \<Rightarrow> Inr c
           | None \<Rightarrow> Inl ColumnNotFound)"
    by (simp add: find_column_def find_alias_None)
  have c: "\<forall>a. first_alias (columns df) TARGET_CANDIDATES = Some a \<longrightarrow>
        (\<exists>c. find_column P df TARGET_CANDIDATES False = Inr c \<and> c \<in> set (columns df) \<and> str_lower c = a)"
    using find_alias_Some [of "columns df" TARGET_CANDIDATES] by (fastforce simp: find_column_def)
  have d: "first_alias (columns df) TARGET_CANDIDATES = None \<longrightarrow>
        find_column P df TARGET_CANDIDATES False = Inl ColumnNotFound"
    by (simp add: find_column_def find_alias_None)
  have e: "detect_columns P df =
        (case (find_column P df DATE_CANDIDATES True, find_column P df TARGET_CANDIDATES False) of
           (Inr d, Inr t) \<Rightarrow> Inr \<lparr>date_col = d, target_col = t\<rparr>
         | _ \<Rightarrow> Inl ColumnNotFound)"
    using find_column_error [of P df] by (auto simp: detect_columns_def split: sum.splits)
  have f: "\<forall>cols' candidates. set cols' = set (columns df) \<longrightarrow>
        first_alias cols' candidates = first_alias (columns df) candidates"
    by (simp add: first_alias_def)
  show ?thesis
    by (intro conjI) (rule a, rule b, rule c, rule d, rule e, rule f)
qed

lemma mixed_df_date_alias: "first_alias (columns mixed_df) DATE_CANDIDATES = Some ''tarih''"
  by code_simp

lemma mixed_df_detected:
  "detect_columns pandas_ref mixed_df = Inr \<lparr>date_col = ''Tarih'', target_col = ''Sales''\<rparr>"
  by code_simp

lemma fallback_df_date_alias: "first_alias (columns fallback_df) DATE_CANDIDATES = None"
  by code_simp

lemma fallback_df_parses:
  "List.find (\<lambda>c. pd_to_datetime_ok pandas_ref (column fallback_df c)) (columns fallback_df) = Some ''when''"
  by code_simp

lemma no_target_df_alias: "first_alias (columns no_target_df) TARGET_CANDIDATES = None"
  by code_simp

lemma no_target_df_date: "find_column pandas_ref no_target_df DATE_CANDIDATES True = Inr ''date''"
  by code_simp

theorem detect_columns_resolution_witness:
  "(\<exists>c. find_column pandas_ref mixed_df DATE_CANDIDATES True = Inr c
        \<and> c \<in> set (columns mixed_df) \<and> str_lower c = ''tarih'')
   \<and> detect_columns pandas_ref mixed_df = Inr \<lparr>date_col = ''Tarih'', target_col = ''Sales''\<rparr>
   \<and> find_column pandas_ref fallback_df DATE_CANDIDATES True = Inr ''when''
   \<and> find_column pandas_ref no_target_df TARGET_CANDIDATES False = Inl ColumnNotFound
   \<and> detect_columns pandas_ref no_target_df = Inl ColumnNotFound"
proof -
  note m = detect_columns_resolution [of mixed_df pandas_ref, THEN conjunct1]
  note f = detect_columns_resolution [of fallback_df pandas_ref, THEN conjunct2, THEN conjunct1]
  note n = detect_columns_resolution [of no_target_df pandas_ref, THEN conjunct2, THEN conjunct2,
      THEN conjunct2, THEN conjunct1]
  note d = detect_columns_resolution [of no_target_df pandas_ref, THEN conjunct2, THEN conjunct2,
      THEN conjunct2, THEN conjunct2, THEN conjunct1]
  have 1: "\<exists>c. find_column pandas_ref mixed_df DATE_CANDIDATES True = Inr c
        \<and> c \<in> set (columns mixed_df) \<and> str_lower c = ''tarih''"
    by (rule m [rule_format, OF mixed_df_date_alias])
  have 2: "find_column pandas_ref fallback_df DATE_CANDIDATES True = Inr ''when''"
    using f [rule_format, OF fallback_df_date_alias] by (simp only: fallback_df_parses option.case)
  have 3: "find_column pandas_ref no_target_df TARGET_CANDIDATES False = Inl ColumnNotFound"
    by (rule n [rule_format, OF no_target_df_alias])
  have 4: "detect_columns pandas_ref no_target_df = Inl ColumnNotFound"
    by (simp only: d 3 no_target_df_date prod.case sum.case)
  from 1 mixed_df_detected 2 3 4 show ?thesis by (intro conjI)
qed

section \<open>The result of a pipeline run\<close>

lemma run_Inr:
  assumes "snd (run P E pl records) = Inr res"
  shows "\<exists>clean calls fmd. prepare P pl records = Inr clean
           \<and> \<not> int (length clean) < min_data_points pl
           \<and> fit_predict P E (forecaster_of pl) clean = (calls, Inr fmd)
           \<and> res = normalize_output P pl fmd"
proof (cases "prepare P pl records")
  case (Inl e)
  with assms show ?thesis by (simp add: run_def)
next
  case (Inr clean)
  show ?thesis
  proof (cases "int (length clean) < min_data_points pl")
    case True
    with Inr assms show ?thesis by (simp add: run_def)
  next
    case False
    obtain calls r where fp: "fit_predict P E (forecaster_of pl) clean = (calls, r)"
      by (cases "fit_predict P E (forecaster_of pl) clean")
    show ?thesis
    proof (cases r)
      case (Inl e)
      with Inr False fp assms show ?thesis by (simp add: run_def)
    next
      case (Inr fmd)
      with \<open>prepare P pl records = Inr clean\<close> False fp assms show ?thesis
        by (cases fmd) (simp add: run_def)
    qed
  qed
qed

lemma fit_predict_Inr:
  assumes "fit_predict P E f df = (calls, Inr fmd)"
  shows "\<exists>out m. fmd = summarise P f df out m (n_val (length df) (horizon f))"
  using assms by (auto simp: fit_predict_def Let_def split: sum.splits if_splits)

lemma predictions_items:
  assumes "item \<in> set (predictions (normalize_output P pl fmd))"
  shows "\<exists>row \<in> set (frows (fst fmd)). item = prediction_item P pl (fst fmd) row"
  using assms by (auto simp: normalize_output_def Let_def split: if_splits)

lemma summarise_columns:
  "fcolumns (fst (summarise P f df out m nv)) =
     (if ef_return_confidence f then [''ds'', ''yhat'', ''yhat_lower'', ''yhat_upper''] else [''ds'', ''yhat''])"
  by (simp add: summarise_def)

lemma summarise_summary:
  "snd (snd (summarise P f df out m nv)) =
     \<lparr>input_rows = int (length df),
      date_range = date_of_min P (map fst df) @ '' to '' @ date_of_max P (map fst df),
      features_used = [''trend'', ''weekly_seasonality'', ''yearly_seasonality'']\<rparr>"
  by (simp add: summarise_def)

lemma item_plain:
  "\<not> return_confidence pl \<Longrightarrow>
     prediction_item P pl fdf row =
       [(''date'', JStr (pd_isoformat P (ds row))),
        (''predicted_value'', JFloat (floor0 (non_negative pl) (yhat row)))]"
  by (simp add: prediction_item_def)

lemma respond_sync_result:
  "body (response (respond_sync cr)) = Result_body res \<Longrightarrow> snd cr = Inr res"
  by (cases "snd cr")
     (simp_all add: respond_sync_def reply_def unprocessable_def split: if_splits)

lemma run_data_Inr:
  "snd (run_data P E pl items) = Inr res \<Longrightarrow>
     \<exists>records. as_records items = Some records \<and> snd (run P E pl records) = Inr res"
  by (cases "as_records items") (simp_all add: run_data_def)

lemma predict_result:
  assumes "body (response (predict P E M now (Some (JObj payload)))) = Result_body res"
  shows "\<exists>freq period items records.
           payload_get payload ''data'' = JArr items \<and> as_records items = Some records
         \<and> valid_period (payload_get payload ''prediction_period'') = Some period
         \<and> payload_get payload ''prediction_frequency'' = JStr freq
         \<and> freq \<in> {''weekly'', ''monthly''}
         \<and> \<not> truthy (find_callback payload)
         \<and> snd (run P E (build_pipeline freq freq period (payload_get payload ''feature_columns'')
                    (truthy (payload_get payload ''confidence_interval'')) M) records) = Inr res"
proof -
  obtain items where d: "payload_get payload ''data'' = JArr items" "items \<noteq> []"
    using assms
    by (cases "payload_get payload ''data''")
       (auto simp: predict_def Let_def bad_request_def reply_def split: if_splits)
  obtain period where p: "valid_period (payload_get payload ''prediction_period'') = Some period"
    using assms d
    by (cases "valid_period (payload_get payload ''prediction_period'')")
       (auto simp: predict_def Let_def bad_request_def reply_def)
  have t: "truthy (payload_get payload ''prediction_frequency'')"
    using assms d p
    by (auto simp: predict_def Let_def bad_request_def reply_def split: if_splits)
  obtain freq where f: "payload_get payload ''prediction_frequency'' = JStr freq"
    "freq \<in> {''weekly'', ''monthly''}"
    using assms d p t
    by (cases "payload_get payload ''prediction_frequency''")
       (auto simp: predict_def Let_def bad_request_def reply_def split: if_splits)
  have c: "\<not> truthy (find_callback payload)"
    using assms d p t f
    by (auto simp: predict_def Let_def bad_request_def reply_def split: if_splits)
  have "predict P E M now (Some (JObj payload)) =
          respond_sync (run_data P E (build_pipeline freq freq period (payload_get payload ''feature_columns'')
                    (truthy (payload_get payload ''confidence_interval'')) M) items)"
    using d p t f c by (simp add: predict_def Let_def)
  with assms have "snd (run_data P E (build_pipeline freq freq period (payload_get payload ''feature_columns'')
                    (truthy (payload_get payload ''confidence_interval'')) M) items) = Inr res"
    by (simp add: respond_sync_result)
  from run_data_Inr [OF this] d p f c show ?thesis by blast
qed

lemma prepare_plain: "prepare pandas_ref pipeline_plain weekly_records3 = Inr weekly3"
  by code_simp

lemma prepare_conf: "prepare pandas_ref pipeline_conf weekly_records3 = Inr weekly3"
  by code_simp

lemma iso_dates:
  "pd_isoformat pandas_ref 19723 = ''2024-01-01''"
  "pd_isoformat pandas_ref 19737 = ''2024-01-15''"
  "pd_isoformat pandas_ref 19744 = ''2024-01-22''"
  "pd_isoformat pandas_ref 19751 = ''2024-01-29''"
  "pd_isoformat pandas_ref 19758 = ''2024-02-05''"
  "pd_isoformat pandas_ref 19765 = ''2024-02-12''"
  by code_simp+

lemma algorithm_label: "normalize_algorithm ''Ensemble (Prophet)'' = ''Prophet''"
  by code_simp

lemma pipeline_plain_fields:
  "prediction_frequency pipeline_plain = ''weekly''" "prediction_period pipeline_plain = 4"
  "return_confidence pipeline_plain = False" "min_data_points pipeline_plain = 3"
  "weekly_rule pipeline_plain = ''W-MON''" "monthly_rule pipeline_plain = ''MS''"
  "non_negative pipeline_plain = True"
  by (simp_all add: pipeline_plain_def build_pipeline_def)

lemma weekly3_facts: "length weekly3 = 3" "map fst weekly3 = [19723, 19730, 19737]"
  by (simp_all add: weekly3_def)

lemma pipeline_conf_fields:
  "prediction_frequency pipeline_conf = ''weekly''" "prediction_period pipeline_conf = 4"
  "return_confidence pipeline_conf = True" "min_data_points pipeline_conf = 3"
  "weekly_rule pipeline_conf = ''W-MON''" "monthly_rule pipeline_conf = ''MS''"
  "non_negative pipeline_conf = True"
  by (simp_all add: pipeline_conf_def build_pipeline_def)

lemma run_plain: "run pandas_ref persistence pipeline_plain weekly_records3 =
   ([(weekly3, 4, ''W-MON'')], Inr result_plain)"
  by (simp add: run_def prepare_plain pipeline_plain_fields weekly3_facts fit_predict_def
        forecaster_of_def freq_rule_def persistence_weekly3 n_val_def summarise_def null_metrics_def
        normalize_output_def prediction_item_def row_get_def floor0_def bound_json_def
        algorithm_label date_of_min_def date_of_max_def iso_dates result_plain_def)

lemma run_conf: "run pandas_ref persistence pipeline_conf weekly_records3 =
   ([(weekly3, 4, ''W-MON'')], Inr result_conf)"
  by (simp add: run_def prepare_conf pipeline_conf_fields weekly3_facts fit_predict_def
        forecaster_of_def freq_rule_def persistence_weekly3 n_val_def summarise_def null_metrics_def
        normalize_output_def prediction_item_def row_get_def floor0_def bound_json_def
        algorithm_label date_of_min_def date_of_max_def iso_dates result_conf_def)

lemma request_plain_callback: "find_callback request_plain = JNull"
  by code_simp

lemma request_plain_records: "as_records (map JObj weekly_records3) = Some weekly_records3"
  by (simp add: weekly_records3_def)

lemma predict_plain:
  "predict pandas_ref persistence 3 0 (Some (JObj request_plain)) =
     \<lparr>response = \<lparr>status = 200, body = Result_body result_plain\<rparr>, background = None,
      engine_calls = [(weekly3, 4, ''W-MON'')]\<rparr>"
proof -
  have g: "payload_get request_plain ''data'' = JArr (map JObj weekly_records3)"
    "payload_get request_plain ''prediction_period'' = JInt 4"
    "payload_get request_plain ''prediction_frequency'' = JStr ''weekly''"
    "payload_get request_plain ''feature_columns'' = JNull"
    "payload_get request_plain ''confidence_interval'' = JNull"
    by (simp_all add: payload_get_def request_plain_def)
  have ne: "weekly_records3 \<noteq> []" by (simp add: weekly_records3_def)
  have bp: "build_pipeline ''weekly'' ''weekly'' 4 JNull False 3 = pipeline_plain"
    by (simp add: pipeline_plain_def)
  show ?thesis
    by (simp add: predict_def Let_def g ne bp request_plain_callback run_data_def request_plain_records
          run_plain respond_sync_def reply_def)
qed

lemma item_with_bounds:
  "return_confidence pl \<Longrightarrow> {''yhat_lower'', ''yhat_upper''} \<subseteq> set (fcolumns fdf) \<Longrightarrow>
     prediction_item P pl fdf row =
       [(''date'', JStr (pd_isoformat P (ds row))),
        (''predicted_value'', JFloat (floor0 (non_negative pl) (yhat row))),
        (''confidence_lower'', JFloat (floor0 (non_negative pl) (yhat_lower row))),
        (''confidence_upper'', JFloat (floor0 (non_negative pl) (yhat_upper row)))]"
  by (simp add: prediction_item_def row_get_def bound_json_def)

lemma item_without_bounds:
  "\<not> (return_confidence pl \<and> {''yhat_lower'', ''yhat_upper''} \<subseteq> set (fcolumns fdf)) \<Longrightarrow>
     prediction_item P pl fdf row =
       [(''date'', JStr (pd_isoformat P (ds row))),
        (''predicted_value'', JFloat (floor0 (non_negative pl) (yhat row)))]"
  by (simp add: prediction_item_def)

lemma item_floored:
  assumes "non_negative pl"
  shows "map_of (prediction_item P pl fdf row) ''predicted_value'' = Some (JFloat (max 0 (yhat row)))
       \<and> (''confidence_lower'' \<in> fst ` set (prediction_item P pl fdf row) \<or>
          ''confidence_upper'' \<in> fst ` set (prediction_item P pl fdf row) \<longrightarrow>
            map_of (prediction_item P pl fdf row) ''confidence_lower'' = Some (JFloat (max 0 (yhat_lower row)))
          \<and> map_of (prediction_item P pl fdf row) ''confidence_upper'' = Some (JFloat (max 0 (yhat_upper row))))"
proof (cases "return_confidence pl \<and> {''yhat_lower'', ''yhat_upper''} \<subseteq> set (fcolumns fdf)")
  case True
  then show ?thesis using assms by (simp add: item_with_bounds floor0_def)
next
  case False
  then show ?thesis using assms by (simp add: item_without_bounds floor0_def)
qed

lemma item_floored_bounds:
  assumes "non_negative pl"
  shows "map_of (prediction_item P pl fdf row) ''predicted_value'' = Some (JFloat (max 0 (yhat row)))
          \<and> 0 \<le> max 0 (yhat row)
          \<and> (''confidence_lower'' \<in> fst ` set (prediction_item P pl fdf row)
               \<or> ''confidence_upper'' \<in> fst ` set (prediction_item P pl fdf row) \<longrightarrow>
                map_of (prediction_item P pl fdf row) ''confidence_lower'' = Some (JFloat (max 0 (yhat_lower row)))
              \<and> map_of (prediction_item P pl fdf row) ''confidence_upper'' = Some (JFloat (max 0 (yhat_upper row)))
              \<and> 0 \<le> max 0 (yhat_lower row) \<and> 0 \<le> max 0 (yhat_upper row))"
proof (cases "return_confidence pl \<and> {''yhat_lower'', ''yhat_upper''} \<subseteq> set (fcolumns fdf)")
  case True
  then show ?thesis using assms by (simp add: item_with_bounds floor0_def)
next
  case False
  then show ?thesis using assms by (simp add: item_without_bounds floor0_def)
qed

text \<open>
  Claim C5. With non-negative mode enabled, every prediction of the final payload carries
  \<open>predicted_value = max(0, yhat)\<close>, hence a value \<open>\<ge> 0\<close>; when the confidence keys are
  present, \<open>confidence_lower\<close> is \<open>max(0, yhat_lower)\<close> and \<open>confidence_upper\<close> is
  \<open>max(0, yhat_upper)\<close> of the same forecast row, each floored on its own and each
  \<open>\<ge> 0\<close>; nothing relates the two floored bounds afterwards.
\<close>

theorem non_negative_output:
  assumes "non_negative pl"
    and "snd (run P E pl records) = Inr res"
    and "item \<in> set (predictions res)"
  shows "\<exists>row :: forecast_row. map_of item ''predicted_value'' = Some (JFloat (max 0 (yhat row)))
          \<and> 0 \<le> max 0 (yhat row)
          \<and> (''confidence_lower'' \<in> fst ` set item \<or> ''confidence_upper'' \<in> fst ` set item \<longrightarrow>
                map_of item ''confidence_lower'' = Some (JFloat (max 0 (yhat_lower row)))
              \<and> map_of item ''confidence_upper'' = Some (JFloat (max 0 (yhat_upper row)))
              \<and> 0 \<le> max 0 (yhat_lower row) \<and> 0 \<le> max 0 (yhat_upper row))"
proof -
  from run_Inr [OF assms(2)] obtain fmd where "res = normalize_output P pl fmd" by blast
  with assms(3) predictions_items obtain row where i: "item = prediction_item P pl (fst fmd) row"
    by blast
  have "map_of item ''predicted_value'' = Some (JFloat (max 0 (yhat row)))
          \<and> 0 \<le> max 0 (yhat row)
          \<and> (''confidence_lower'' \<in> fst ` set item \<or> ''confidence_upper'' \<in> fst ` set item \<longrightarrow>
                map_of item ''confidence_lower'' = Some (JFloat (max 0 (yhat_lower row)))
              \<and> map_of item ''confidence_upper'' = Some (JFloat (max 0 (yhat_upper row)))
              \<and> 0 \<le> max 0 (yhat_lower row) \<and> 0 \<le> max 0 (yhat_upper row))"
    unfolding i by (rule item_floored_bounds [OF assms(1)])
  then show ?thesis by (rule exI)
qed

theorem non_negative_output_witness:
  "non_negative pipeline_conf
   \<and> snd (run pandas_ref persistence pipeline_conf weekly_records3) = Inr result_conf
   \<and> [(''date'', JStr ''2024-01-22''), (''predicted_value'', JFloat 2),
       (''confidence_lower'', JFloat 0), (''confidence_upper'', JFloat 7)] \<in> set (predictions result_conf)
   \<and> (\<exists>row :: forecast_row. JFloat 2 = JFloat (max 0 (yhat row)) \<and> JFloat 0 = JFloat (max 0 (yhat_lower row))
          \<and> JFloat 7 = JFloat (max 0 (yhat_upper row)))"
proof -
  have a: "non_negative pipeline_conf" by (simp add: pipeline_conf_fields)
  have b: "snd (run pandas_ref persistence pipeline_conf weekly_records3) = Inr result_conf"
    by (simp add: run_conf)
  have c: "[(''date'', JStr ''2024-01-22''), (''predicted_value'', JFloat 2),
       (''confidence_lower'', JFloat 0), (''confidence_upper'', JFloat 7)] \<in> set (predictions result_conf)"
    by (simp add: result_conf_def)
  from non_negative_output [OF a b c]
  have "\<exists>row :: forecast_row. JFloat 2 = JFloat (max 0 (yhat row)) \<and> JFloat 0 = JFloat (max 0 (yhat_lower row))
          \<and> JFloat 7 = JFloat (max 0 (yhat_upper row))"
    by simp
  with a b c show ?thesis by (intro conjI)
qed

text \<open>
  Claim C8. When confidence bounds are not requested (the pipeline's \<open>return_confidence\<close>
  is off; for a request: \<open>confidence_interval\<close> is absent or falsy), every returned
  prediction row has exactly the keys \<open>date\<close> and \<open>predicted_value\<close>: the keys
  \<open>confidence_lower\<close> and \<open>confidence_upper\<close> are absent, not present with a null value.
\<close>

theorem no_confidence_keys:
  "(\<not> return_confidence pl \<and> snd (run P E pl records) = Inr res \<and> item \<in> set (predictions res) \<longrightarrow>
      ''confidence_lower'' \<notin> fst ` set item \<and> ''confidence_upper'' \<notin> fst ` set item
      \<and> map fst item = [''date'', ''predicted_value''])
   \<and> (\<not> truthy (payload_get payload ''confidence_interval'')
        \<and> body (response (predict P E M now (Some (JObj payload)))) = Result_body res'
        \<and> item' \<in> set (predictions res') \<longrightarrow>
      ''confidence_lower'' \<notin> fst ` set item' \<and> ''confidence_upper'' \<notin> fst ` set item'
      \<and> map fst item' = [''date'', ''predicted_value''])"
proof -
  have pipeline: "''confidence_lower'' \<notin> fst ` set i \<and> ''confidence_upper'' \<notin> fst ` set i
      \<and> map fst i = [''date'', ''predicted_value'']"
    if "\<not> return_confidence p" "snd (run P E p rs) = Inr r" "i \<in> set (predictions r)"
    for p rs r i
  proof -
    from run_Inr [OF that(2)] obtain fmd where "r = normalize_output P p fmd" by blast
    with that(3) predictions_items obtain row where "i = prediction_item P p (fst fmd) row"
      by blast
    with that(1) show ?thesis by (simp add: item_without_bounds)
  qed
  have request: "''confidence_lower'' \<notin> fst ` set item' \<and> ''confidence_upper'' \<notin> fst ` set item'
      \<and> map fst item' = [''date'', ''predicted_value'']"
    if "\<not> truthy (payload_get payload ''confidence_interval'')"
      "body (response (predict P E M now (Some (JObj payload)))) = Result_body res'"
      "item' \<in> set (predictions res')"
  proof -
    from predict_result [OF that(2)] obtain freq period records' where
      r: "snd (run P E (build_pipeline freq freq period (payload_get payload ''feature_columns'')
                    (truthy (payload_get payload ''confidence_interval'')) M) records') = Inr res'"
      by blast
    have "\<not> return_confidence (build_pipeline freq freq period (payload_get payload ''feature_columns'')
                    (truthy (payload_get payload ''confidence_interval'')) M)"
      using that(1) by (simp add: build_pipeline_def)
    from pipeline [OF this r that(3)] show ?thesis .
  qed
  from pipeline [of pl records res item] request show ?thesis by (intro conjI impI) simp_all
qed

theorem no_confidence_keys_witness:
  "\<not> return_confidence pipeline_plain
   \<and> snd (run pandas_ref persistence pipeline_plain weekly_records3) = Inr result_plain
   \<and> \<not> truthy (payload_get request_plain ''confidence_interval'')
   \<and> body (response (predict pandas_ref persistence 3 0 (Some (JObj request_plain)))) = Result_body result_plain
   \<and> [(''date'', JStr ''2024-01-22''), (''predicted_value'', JFloat 2)] \<in> set (predictions result_plain)
   \<and> ''confidence_lower'' \<notin> fst ` set [(''date'', JStr ''2024-01-22''), (''predicted_value'', JFloat 2)]"
proof -
  have a: "\<not> return_confidence pipeline_plain" by (simp add: pipeline_plain_fields)
  have b: "snd (run pandas_ref persistence pipeline_plain weekly_records3) = Inr result_plain"
    by (simp add: run_plain)
  have c: "\<not> truthy (payload_get request_plain ''confidence_interval'')"
    by (simp add: payload_get_def request_plain_def)
  have d: "body (response (predict pandas_ref persistence 3 0 (Some (JObj request_plain)))) = Result_body result_plain"
    by (simp add: predict_plain)
  have e: "[(''date'', JStr ''2024-01-22''), (''predicted_value'', JFloat 2)] \<in> set (predictions result_plain)"
    by (simp add: result_plain_def)
  note t = no_confidence_keys [where pl = pipeline_plain and P = pandas_ref and E = persistence
      and records = weekly_records3 and res = result_plain and res' = result_plain
      and payload = request_plain and M = 3 and now = 0
      and item = "[(''date'', JStr ''2024-01-22''), (''predicted_value'', JFloat 2)]"
      and item' = "[(''date'', JStr ''2024-01-22''), (''predicted_value'', JFloat 2)]"]
  from t [THEN conjunct1, rule_format, OF conjI, OF a conjI, OF b e]
  have f: "''confidence_lower'' \<notin> fst ` set [(''date'', JStr ''2024-01-22''), (''predicted_value'', JFloat 2)]"
    by (rule conjunct1)
  from t [THEN conjunct2, rule_format, OF conjI, OF c conjI, OF d e]
  have "''confidence_upper'' \<notin> fst ` set [(''date'', JStr ''2024-01-22''), (''predicted_value'', JFloat 2)]"
    by (elim conjE)
  from a b c d e f show ?thesis by (intro conjI)
qed

section \<open>Data summary, the minimum check and the translation of failures\<close>

lemma prepare_daily4: "prepare pandas_ref pipeline_plain daily_records4 = Inr buckets3"
  by code_simp

lemma aggregated_same_week: "aggregated pandas_ref pipeline30 same_week_records3 = Inr [(19730, Some 14)]"
  by code_simp

lemma prepare_same_week: "prepare pandas_ref pipeline30 same_week_records3 = Inr [(19730, Some 14)]"
  by code_simp


lemma prepare_straddling:
  "prepare pandas_ref pipeline30 straddling_records3 =
     Inl (Raised PyValueError ''Need at least 3 dates to infer frequency'')"
  by code_simp

lemma persistence_buckets3:
  "persistence buckets3 4 ''W-MON'' =
     Inr [\<lparr>ds = 19751, yhat = 3, yhat_lower = -1, yhat_upper = 7\<rparr>,
          \<lparr>ds = 19758, yhat = 3, yhat_lower = -1, yhat_upper = 7\<rparr>,
          \<lparr>ds = 19765, yhat = 3, yhat_lower = -1, yhat_upper = 7\<rparr>,
          \<lparr>ds = 19772, yhat = 3, yhat_lower = -1, yhat_upper = 7\<rparr>]"
  by (simp add: persistence_def buckets3_def on_anchor_def List.map_filter_def Let_def)

lemma iso_dates_more:
  "pd_isoformat pandas_ref 19730 = ''2024-01-08''"
  "pd_isoformat pandas_ref 19772 = ''2024-02-19''"
  by code_simp+

lemma buckets3_facts: "length buckets3 = 3" "map fst buckets3 = [19730, 19737, 19744]"
  by (simp_all add: buckets3_def)

lemma run_daily4:
  "snd (run pandas_ref persistence pipeline_plain daily_records4) =
     Inr \<lparr>success = True,
          data_summary = \<lparr>input_rows = 3, date_range = ''2024-01-08 to 2024-01-22'',
                          features_used = [''trend'', ''weekly_seasonality'', ''yearly_seasonality'']\<rparr>,
          predictions =
            [[(''date'', JStr ''2024-01-29''), (''predicted_value'', JFloat 3)],
             [(''date'', JStr ''2024-02-05''), (''predicted_value'', JFloat 3)],
             [(''date'', JStr ''2024-02-12''), (''predicted_value'', JFloat 3)],
             [(''date'', JStr ''2024-02-19''), (''predicted_value'', JFloat 3)]],
          model_info = \<lparr>algorithm = ''Prophet'', accuracy_mae = None, accuracy_rmse = None,
                         accuracy_mape = None, backtest_points = 2\<rparr>\<rparr>"
  by (simp add: run_def prepare_daily4 pipeline_plain_fields buckets3_facts fit_predict_def
        forecaster_of_def freq_rule_def persistence_buckets3 n_val_def summarise_def null_metrics_def
        normalize_output_def prediction_item_def row_get_def floor0_def bound_json_def
        algorithm_label date_of_min_def date_of_max_def iso_dates iso_dates_more)

lemma normalize_output_summary:
  "data_summary (normalize_output P pl (summarise P' f df out m nv)) =
     \<lparr>input_rows = int (length df),
      date_range = date_of_min P' (map fst df) @ '' to '' @ date_of_max P' (map fst df),
      features_used = [''trend'', ''weekly_seasonality'', ''yearly_seasonality'']\<rparr>"
  by (simp add: normalize_output_def summarise_def Let_def)

text \<open>
  Claim C7, as the code has it. For every successful run, \<open>data_summary\<close> reports as
  \<open>input_rows\<close> the number of points of the clean series (after aggregation and
  sanitising) that was handed to the forecaster, as \<open>date_range\<close> the one string
  \<open>"<min> to <max>"\<close> of the ISO dates of the first and last timestamp of that clean
  series, both included, and as \<open>features_used\<close> the three seasonal components.
\<close>

theorem data_summary_of_clean_series:
  assumes "snd (run P E pl records) = Inr res"
  shows "\<exists>clean. prepare P pl records = Inr clean
           \<and> data_summary res =
               \<lparr>input_rows = int (length clean),
                date_range = date_of_min P (map fst clean) @ '' to '' @ date_of_max P (map fst clean),
                features_used = [''trend'', ''weekly_seasonality'', ''yearly_seasonality'']\<rparr>"
proof -
  from run_Inr [OF assms] obtain clean calls fmd where
    c: "prepare P pl records = Inr clean"
    and f: "fit_predict P E (forecaster_of pl) clean = (calls, Inr fmd)"
    and r: "res = normalize_output P pl fmd"
    by blast
  from fit_predict_Inr [OF f] obtain out m where
    "fmd = summarise P (forecaster_of pl) clean out m (n_val (length clean) (horizon (forecaster_of pl)))"
    by blast
  with r have "data_summary res =
               \<lparr>input_rows = int (length clean),
                date_range = date_of_min P (map fst clean) @ '' to '' @ date_of_max P (map fst clean),
                features_used = [''trend'', ''weekly_seasonality'', ''yearly_seasonality'']\<rparr>"
    by (simp only: normalize_output_summary)
  with c show ?thesis by blast
qed

theorem data_summary_of_clean_series_witness:
  "\<exists>res clean. snd (run pandas_ref persistence pipeline_plain daily_records4) = Inr res
     \<and> prepare pandas_ref pipeline_plain daily_records4 = Inr clean
     \<and> length clean = 3
     \<and> data_summary res =
         \<lparr>input_rows = int (length clean),
          date_range = date_of_min pandas_ref (map fst clean) @ '' to '' @ date_of_max pandas_ref (map fst clean),
          features_used = [''trend'', ''weekly_seasonality'', ''yearly_seasonality'']\<rparr>"
proof -
  note r = run_daily4
  from data_summary_of_clean_series [OF r] obtain clean where
    c: "prepare pandas_ref pipeline_plain daily_records4 = Inr clean"
    and d: "data_summary \<lparr>success = True,
          data_summary = \<lparr>input_rows = 3, date_range = ''2024-01-08 to 2024-01-22'',
                          features_used = [''trend'', ''weekly_seasonality'', ''yearly_seasonality'']\<rparr>,
          predictions =
            [[(''date'', JStr ''2024-01-29''), (''predicted_value'', JFloat 3)],
             [(''date'', JStr ''2024-02-05''), (''predicted_value'', JFloat 3)],
             [(''date'', JStr ''2024-02-12''), (''predicted_value'', JFloat 3)],
             [(''date'', JStr ''2024-02-19''), (''predicted_value'', JFloat 3)]],
          model_info = \<lparr>algorithm = ''Prophet'', accuracy_mae = None, accuracy_rmse = None,
                         accuracy_mape = None, backtest_points = 2\<rparr>\<rparr> =
               \<lparr>input_rows = int (length clean),
                date_range = date_of_min pandas_ref (map fst clean) @ '' to '' @ date_of_max pandas_ref (map fst clean),
                features_used = [''trend'', ''weekly_seasonality'', ''yearly_seasonality'']\<rparr>"
    by blast
  from c have l: "length clean = 3" by (auto simp: prepare_daily4 buckets3_def)
  from r c l d show ?thesis by blast
qed

text \<open>
  Against claim C7 as stated: four raw records, dated 2 to 17 January 2024, are submitted;
  the run succeeds and reports \<open>input_rows = 3\<close>, the number of weekly buckets, and the
  date range of the bucket labels, 8 to 22 January.
\<close>

theorem input_rows_counterexample:
  "length daily_records4 = 4
   \<and> input_rows (data_summary (projr (snd (run pandas_ref persistence pipeline_plain daily_records4)))) = 3
   \<and> date_range (data_summary (projr (snd (run pandas_ref persistence pipeline_plain daily_records4))))
       = ''2024-01-08 to 2024-01-22''
   \<and> isl (snd (run pandas_ref persistence pipeline_plain daily_records4)) = False"
proof -
  have "length daily_records4 = 4" by (simp add: daily_records4_def)
  then show ?thesis by (simp add: run_daily4)
qed

text \<open>
  The minimum check of \<open>run\<close>. When the clean series, after the sanitizer, is shorter
  than \<open>min_data_points\<close>, \<open>run\<close> fails with InsufficientData and no engine call was made,
  however many raw records came in; a failure of an earlier step is returned as it is,
  again before any engine call; and the engine is called only on a clean series of at
  least \<open>min_data_points\<close> points.
\<close>

theorem insufficient_data_before_forecaster:
  "(\<forall>clean. prepare P pl records = Inr clean \<and> int (length clean) < min_data_points pl \<longrightarrow>
      run P E pl records = ([], Inl InsufficientData))
   \<and> (\<forall>e. prepare P pl records = Inl e \<longrightarrow> run P E pl records = ([], Inl e))
   \<and> (fst (run P E pl records) \<noteq> [] \<longrightarrow>
        (\<exists>clean. prepare P pl records = Inr clean \<and> min_data_points pl \<le> int (length clean)))"
proof (intro conjI allI impI)
  fix clean
  assume "prepare P pl records = Inr clean \<and> int (length clean) < min_data_points pl"
  then show "run P E pl records = ([], Inl InsufficientData)" by (simp add: run_def)
next
  fix e
  assume "prepare P pl records = Inl e"
  then show "run P E pl records = ([], Inl e)" by (simp add: run_def)
next
  assume a: "fst (run P E pl records) \<noteq> []"
  show "\<exists>clean. prepare P pl records = Inr clean \<and> min_data_points pl \<le> int (length clean)"
  proof (cases "prepare P pl records")
    case (Inl e)
    with a show ?thesis by (simp add: run_def)
  next
    case (Inr clean)
    with a have "\<not> int (length clean) < min_data_points pl"
      by (auto simp: run_def)
    with Inr show ?thesis by simp
  qed
qed

theorem insufficient_data_before_forecaster_witness:
  "length same_week_records3 = 3
   \<and> prepare pandas_ref pipeline30 same_week_records3 = Inr [(19730, Some 14)]
   \<and> min_data_points pipeline30 = 30
   \<and> run pandas_ref persistence pipeline30 same_week_records3 = ([], Inl InsufficientData)
   \<and> run pandas_ref persistence pipeline30 straddling_records3 =
       ([], Inl (Raised PyValueError ''Need at least 3 dates to infer frequency''))"
proof -
  have m: "min_data_points pipeline30 = 30" by (simp add: pipeline30_def build_pipeline_def)
  note t = insufficient_data_before_forecaster [of pandas_ref pipeline30 same_week_records3 persistence]
  note u = insufficient_data_before_forecaster [of pandas_ref pipeline30 straddling_records3 persistence]
  have h: "prepare pandas_ref pipeline30 same_week_records3 = Inr [(19730, Some 14)]
             \<and> int (length [(19730 :: int, Some (14 :: real))]) < min_data_points pipeline30"
    by (simp add: prepare_same_week m)
  have 1: "run pandas_ref persistence pipeline30 same_week_records3 = ([], Inl InsufficientData)"
    by (rule t [THEN conjunct1, rule_format, OF h])
  have 2: "run pandas_ref persistence pipeline30 straddling_records3 =
       ([], Inl (Raised PyValueError ''Need at least 3 dates to infer frequency''))"
    by (rule u [THEN conjunct2, THEN conjunct1, rule_format, OF prepare_straddling])
  have 3: "length same_week_records3 = 3" by (simp add: same_week_records3_def)
  from 3 prepare_same_week m 1 2 show ?thesis by (intro conjI)
qed




lemma predict_sync:
  assumes "payload_get payload ''data'' = JArr items" and "items \<noteq> []"
    and "valid_period (payload_get payload ''prediction_period'') = Some period"
    and "payload_get payload ''prediction_frequency'' = JStr freq"
    and "freq \<in> {''weekly'', ''monthly''}"
    and "\<not> truthy (find_callback payload)"
  shows "predict P E M now (Some (JObj payload)) =
           respond_sync (run_data P E
             (build_pipeline freq freq period (payload_get payload ''feature_columns'')
                (truthy (payload_get payload ''confidence_interval'')) M) items)"
proof -
  from assms(4,5) have "truthy (payload_get payload ''prediction_frequency'')" by auto
  with assms show ?thesis by (simp add: predict_def Let_def)
qed

lemma respond_sync_failure:
  "snd cr = Inl e \<Longrightarrow>
     response (respond_sync cr) =
       (if error_class e = PyValueError
        then \<lparr>status = 422, body = Error_body ''insufficient_data'' (Exception_text e)\<rparr>
        else \<lparr>status = 500, body = Error_body ''internal_error'' (Exception_text e)\<rparr>)"
  by (simp add: respond_sync_def unprocessable_def reply_def)

text \<open>
  Claim C1, as the code has it. A synchronous request whose pipeline run fails with
  ColumnNotFound or InvalidAggregationLevel is answered with status 422 and the error code
  \<open>insufficient_data\<close>, as every failure of the run that is a ValueError; the 500
  internal-error response is given exactly to the failures of another exception class.
\<close>

theorem sync_failure_response:
  assumes "payload_get payload ''data'' = JArr items" and "items \<noteq> []"
    and "valid_period (payload_get payload ''prediction_period'') = Some period"
    and "payload_get payload ''prediction_frequency'' = JStr freq"
    and "freq \<in> {''weekly'', ''monthly''}"
    and "\<not> truthy (find_callback payload)"
    and "snd (run_data P E
             (build_pipeline freq freq period (payload_get payload ''feature_columns'')
                (truthy (payload_get payload ''confidence_interval'')) M) items) = Inl e"
  shows "(e = ColumnNotFound \<or> e = InvalidAggregationLevel \<longrightarrow>
            response (predict P E M now (Some (JObj payload))) =
              \<lparr>status = 422, body = Error_body ''insufficient_data'' (Exception_text e)\<rparr>)
       \<and> (error_class e = PyValueError \<longrightarrow>
            response (predict P E M now (Some (JObj payload))) =
              \<lparr>status = 422, body = Error_body ''insufficient_data'' (Exception_text e)\<rparr>)
       \<and> (error_class e \<noteq> PyValueError \<longrightarrow>
            response (predict P E M now (Some (JObj payload))) =
              \<lparr>status = 500, body = Error_body ''internal_error'' (Exception_text e)\<rparr>)"
proof -
  note p = predict_sync [OF assms(1-6), of P E M now]
  have r: "response (predict P E M now (Some (JObj payload))) =
       (if error_class e = PyValueError
        then \<lparr>status = 422, body = Error_body ''insufficient_data'' (Exception_text e)\<rparr>
        else \<lparr>status = 500, body = Error_body ''internal_error'' (Exception_text e)\<rparr>)"
    unfolding p by (rule respond_sync_failure [OF assms(7)])
  have c: "e = ColumnNotFound \<or> e = InvalidAggregationLevel \<Longrightarrow> error_class e = PyValueError"
    by auto
  show ?thesis
  proof (intro conjI impI)
    assume "e = ColumnNotFound \<or> e = InvalidAggregationLevel"
    from c [OF this] r show "response (predict P E M now (Some (JObj payload))) =
              \<lparr>status = 422, body = Error_body ''insufficient_data'' (Exception_text e)\<rparr>"
      by simp
  next
    assume "error_class e = PyValueError"
    with r show "response (predict P E M now (Some (JObj payload))) =
              \<lparr>status = 422, body = Error_body ''insufficient_data'' (Exception_text e)\<rparr>"
      by simp
  next
    assume "error_class e \<noteq> PyValueError"
    with r show "response (predict P E M now (Some (JObj payload))) =
              \<lparr>status = 500, body = Error_body ''internal_error'' (Exception_text e)\<rparr>"
      by simp
  qed
qed

lemma no_target_items:
  "payload_get request_no_target ''data'' = JArr [JObj [(''date'', JStr ''2024-01-01''), (''units'', JInt 5)]]"
  "payload_get request_no_target ''prediction_period'' = JInt 4"
  "payload_get request_no_target ''prediction_frequency'' = JStr ''weekly''"
  "payload_get request_no_target ''feature_columns'' = JNull"
  "payload_get request_no_target ''confidence_interval'' = JNull"
  by (simp_all add: payload_get_def request_no_target_def)

lemma no_target_callback: "find_callback request_no_target = JNull"
  by code_simp

lemma no_target_run:
  "run_data pandas_ref persistence (build_pipeline ''weekly'' ''weekly'' 4 JNull False 30)
     [JObj [(''date'', JStr ''2024-01-01''), (''units'', JInt 5)]] = ([], Inl ColumnNotFound)"
proof -
  have "prepare pandas_ref (build_pipeline ''weekly'' ''weekly'' 4 JNull False 30)
          [[(''date'', JStr ''2024-01-01''), (''units'', JInt 5)]] = Inl ColumnNotFound"
    by code_simp
  then show ?thesis by (simp add: run_data_def run_def)
qed

theorem sync_failure_response_witness:
  "snd (run_data pandas_ref persistence (build_pipeline ''weekly'' ''weekly'' 4 JNull False 30)
          [JObj [(''date'', JStr ''2024-01-01''), (''units'', JInt 5)]]) = Inl ColumnNotFound
   \<and> response (predict pandas_ref persistence 30 0 (Some (JObj request_no_target))) =
       \<lparr>status = 422, body = Error_body ''insufficient_data'' (Exception_text ColumnNotFound)\<rparr>"
proof -
  have a: "payload_get request_no_target ''data'' = JArr [JObj [(''date'', JStr ''2024-01-01''), (''units'', JInt 5)]]"
    by (rule no_target_items)
  have b: "[JObj [(''date'', JStr ''2024-01-01''), (''units'', JInt 5)]] \<noteq> []" by simp
  have c: "valid_period (payload_get request_no_target ''prediction_period'') = Some 4"
    by (simp add: no_target_items)
  have d: "payload_get request_no_target ''prediction_frequency'' = JStr ''weekly''"
    by (rule no_target_items)
  have e: "''weekly'' \<in> {''weekly'', ''monthly''}" by simp
  have f: "\<not> truthy (find_callback request_no_target)" by (simp add: no_target_callback)
  have g: "snd (run_data pandas_ref persistence
             (build_pipeline ''weekly'' ''weekly'' 4 (payload_get request_no_target ''feature_columns'')
                (truthy (payload_get request_no_target ''confidence_interval'')) 30)
             [JObj [(''date'', JStr ''2024-01-01''), (''units'', JInt 5)]]) = Inl ColumnNotFound"
    by (simp add: no_target_items no_target_run)
  note t = sync_failure_response [OF a b c d e f g, of 0, THEN conjunct1, rule_format]
  have "response (predict pandas_ref persistence 30 0 (Some (JObj request_no_target))) =
       \<lparr>status = 422, body = Error_body ''insufficient_data'' (Exception_text ColumnNotFound)\<rparr>"
    by (rule t) simp
  moreover have "snd (run_data pandas_ref persistence (build_pipeline ''weekly'' ''weekly'' 4 JNull False 30)
          [JObj [(''date'', JStr ''2024-01-01''), (''units'', JInt 5)]]) = Inl ColumnNotFound"
    by (simp add: no_target_run)
  ultimately show ?thesis by (intro conjI)
qed

text \<open>
  Against claim C1 as stated: the request's run fails with ColumnNotFound (no header is a
  target alias) and the response is the 422 client error, not a 500.
\<close>

theorem column_not_found_counterexample:
  "snd (run_data pandas_ref persistence (build_pipeline ''weekly'' ''weekly'' 4 JNull False 30)
          [JObj [(''date'', JStr ''2024-01-01''), (''units'', JInt 5)]]) = Inl ColumnNotFound
   \<and> status (response (predict pandas_ref persistence 30 0 (Some (JObj request_no_target)))) = 422
   \<and> status (response (predict pandas_ref persistence 30 0 (Some (JObj request_no_target)))) \<noteq> 500"
proof -
  have "predict pandas_ref persistence 30 0 (Some (JObj request_no_target)) =
          respond_sync (run_data pandas_ref persistence (build_pipeline ''weekly'' ''weekly'' 4 JNull False 30)
             [JObj [(''date'', JStr ''2024-01-01''), (''units'', JInt 5)]])"
    by (simp add: predict_def Let_def no_target_items no_target_callback)
  then show ?thesis
    by (simp add: no_target_run respond_sync_def unprocessable_def reply_def)
qed

section \<open>Synchronous or asynchronous processing\<close>

lemma find_callback_first:
  "find_callback payload = (case first_indicator payload of None \<Rightarrow> JNull | Some kv \<Rightarrow> snd kv)"
  by (induction payload) (auto simp: first_indicator_def)

lemma respond_sync_background: "background (respond_sync cr) = None"
  by (cases "snd cr") (simp_all add: respond_sync_def reply_def unprocessable_def)

lemma predict_async:
  assumes "payload_get payload ''data'' = JArr items" and "items \<noteq> []"
    and "valid_period (payload_get payload ''prediction_period'') = Some period"
    and "payload_get payload ''prediction_frequency'' = JStr freq"
    and "freq \<in> {''weekly'', ''monthly''}"
    and "truthy (find_callback payload)"
  shows "predict P E M now (Some (JObj payload)) =
           \<lparr>response = \<lparr>status = 200, body = Ack_body now (find_callback payload)\<rparr>,
            background = Some (Background (find_callback payload) now
              (build_pipeline freq freq period (payload_get payload ''feature_columns'')
                 (truthy (payload_get payload ''confidence_interval'')) M) items),
            engine_calls = []\<rparr>"
proof -
  from assms(4,5) have "truthy (payload_get payload ''prediction_frequency'')" by auto
  with assms show ?thesis by (simp add: predict_def Let_def)
qed

text \<open>
  Claim C10, as the code has it. For a request that passes validation, the path is
  decided by the first callback-indicator key in the payload's key order (keys matched
  case-insensitively): when there is none, or its value is falsy (empty string, false, 0,
  null), the request is processed synchronously and no background unit is started, even
  if a later indicator key holds an address; when its value is truthy, the request is
  acknowledged with status 200 and handed to a background unit, with no engine call in the
  request itself.
\<close>

theorem callback_dispatch:
  assumes "payload_get payload ''data'' = JArr items" and "items \<noteq> []"
    and "valid_period (payload_get payload ''prediction_period'') = Some period"
    and "payload_get payload ''prediction_frequency'' = JStr freq"
    and "freq \<in> {''weekly'', ''monthly''}"
  shows "((first_indicator payload = None \<or> (\<exists>k v. first_indicator payload = Some (k, v) \<and> \<not> truthy v)) \<longrightarrow>
            predict P E M now (Some (JObj payload)) =
              respond_sync (run_data P E
                (build_pipeline freq freq period (payload_get payload ''feature_columns'')
                   (truthy (payload_get payload ''confidence_interval'')) M) items)
            \<and> background (predict P E M now (Some (JObj payload))) = None)
       \<and> (\<forall>k v. first_indicator payload = Some (k, v) \<and> truthy v \<longrightarrow>
            response (predict P E M now (Some (JObj payload))) = \<lparr>status = 200, body = Ack_body now v\<rparr>
            \<and> background (predict P E M now (Some (JObj payload))) =
                Some (Background v now
                  (build_pipeline freq freq period (payload_get payload ''feature_columns'')
                     (truthy (payload_get payload ''confidence_interval'')) M) items)
            \<and> engine_calls (predict P E M now (Some (JObj payload))) = [])
       \<and> \<not> truthy (JStr '''') \<and> \<not> truthy (JBool False) \<and> \<not> truthy (JInt 0) \<and> \<not> truthy JNull"
proof (intro conjI impI allI)
  assume "first_indicator payload = None \<or> (\<exists>k v. first_indicator payload = Some (k, v) \<and> \<not> truthy v)"
  then have f: "\<not> truthy (find_callback payload)"
    by (auto simp: find_callback_first)
  from predict_sync [OF assms f, of P E M now]
  show "predict P E M now (Some (JObj payload)) =
              respond_sync (run_data P E
                (build_pipeline freq freq period (payload_get payload ''feature_columns'')
                   (truthy (payload_get payload ''confidence_interval'')) M) items)" .
  then show "background (predict P E M now (Some (JObj payload))) = None"
    by (simp only: respond_sync_background)
next
  fix k v
  assume a: "first_indicator payload = Some (k, v) \<and> truthy v"
  then have v: "find_callback payload = v" by (simp add: find_callback_first)
  with a have t: "truthy (find_callback payload)" by simp
  note p = predict_async [OF assms t, of P E M now, unfolded v]
  show "response (predict P E M now (Some (JObj payload))) = \<lparr>status = 200, body = Ack_body now v\<rparr>"
    by (simp add: p)
  show "background (predict P E M now (Some (JObj payload))) =
                Some (Background v now
                  (build_pipeline freq freq period (payload_get payload ''feature_columns'')
                     (truthy (payload_get payload ''confidence_interval'')) M) items)"
    by (simp add: p)
  show "engine_calls (predict P E M now (Some (JObj payload))) = []"
    by (simp add: p)
qed simp_all

lemma plain_fields:
  "payload_get request_empty_callback ''data'' = JArr (map JObj weekly_records3)"
  "payload_get request_empty_callback ''prediction_period'' = JInt 4"
  "payload_get request_empty_callback ''prediction_frequency'' = JStr ''weekly''"
  "payload_get request_empty_callback ''feature_columns'' = JNull"
  "payload_get request_empty_callback ''confidence_interval'' = JNull"
  "payload_get request_webhook_first ''data'' = JArr (map JObj weekly_records3)"
  "payload_get request_webhook_first ''prediction_period'' = JInt 4"
  "payload_get request_webhook_first ''prediction_frequency'' = JStr ''weekly''"
  "payload_get request_webhook_first ''feature_columns'' = JNull"
  "payload_get request_webhook_first ''confidence_interval'' = JNull"
  "payload_get request_callback_first ''data'' = JArr (map JObj weekly_records3)"
  "payload_get request_callback_first ''prediction_period'' = JInt 4"
  "payload_get request_callback_first ''prediction_frequency'' = JStr ''weekly''"
  "payload_get request_callback_first ''feature_columns'' = JNull"
  "payload_get request_callback_first ''confidence_interval'' = JNull"
  by (simp_all add: payload_get_def request_empty_callback_def request_webhook_first_def
        request_callback_first_def request_plain_def)

lemma indicators:
  "first_indicator request_empty_callback = Some (''Callback'', JStr '''')"
  "first_indicator request_webhook_first = Some (''webhook'', JStr ''http://example.org/hook'')"
  "first_indicator request_callback_first = Some (''callback'', JStr '''')"
  by code_simp+

lemma records_nonempty: "map JObj weekly_records3 \<noteq> []"
  by (simp add: weekly_records3_def)

lemma sync_plain:
  "respond_sync (run_data pandas_ref persistence (build_pipeline ''weekly'' ''weekly'' 4 JNull False 3)
     (map JObj weekly_records3)) =
   \<lparr>response = \<lparr>status = 200, body = Result_body result_plain\<rparr>, background = None,
    engine_calls = [(weekly3, 4, ''W-MON'')]\<rparr>"
proof -
  have bp: "build_pipeline ''weekly'' ''weekly'' 4 JNull False 3 = pipeline_plain"
    by (simp add: pipeline_plain_def)
  show ?thesis
    by (simp add: bp run_data_def request_plain_records run_plain respond_sync_def reply_def)
qed

theorem callback_dispatch_witness:
  "first_indicator request_empty_callback = Some (''Callback'', JStr '''')
   \<and> predict pandas_ref persistence 3 0 (Some (JObj request_empty_callback)) =
       \<lparr>response = \<lparr>status = 200, body = Result_body result_plain\<rparr>, background = None,
        engine_calls = [(weekly3, 4, ''W-MON'')]\<rparr>
   \<and> first_indicator request_callback_first = Some (''callback'', JStr '''')
   \<and> background (predict pandas_ref persistence 3 0 (Some (JObj request_callback_first))) = None
   \<and> first_indicator request_webhook_first = Some (''webhook'', JStr ''http://example.org/hook'')
   \<and> response (predict pandas_ref persistence 3 0 (Some (JObj request_webhook_first))) =
       \<lparr>status = 200, body = Ack_body 0 (JStr ''http://example.org/hook'')\<rparr>"
proof -
  have p: "valid_period (JInt 4) = Some 4" by simp
  have w: "''weekly'' \<in> {''weekly'', ''monthly''}" by simp
  note e = callback_dispatch [where payload = request_empty_callback and P = pandas_ref
      and E = persistence and M = 3 and now = 0, OF plain_fields(1) records_nonempty
      p [folded plain_fields(2)] plain_fields(3) w]
  note c = callback_dispatch [where payload = request_callback_first and P = pandas_ref
      and E = persistence and M = 3 and now = 0, OF plain_fields(11) records_nonempty
      p [folded plain_fields(12)] plain_fields(13) w]
  note h = callback_dispatch [where payload = request_webhook_first and P = pandas_ref
      and E = persistence and M = 3 and now = 0, OF plain_fields(6) records_nonempty
      p [folded plain_fields(7)] plain_fields(8) w]
  have f: "\<exists>k v. first_indicator request_empty_callback = Some (k, v) \<and> \<not> truthy v"
    by (simp add: indicators)
  have g: "\<exists>k v. first_indicator request_callback_first = Some (k, v) \<and> \<not> truthy v"
    by (simp add: indicators)
  have 1: "predict pandas_ref persistence 3 0 (Some (JObj request_empty_callback)) =
       \<lparr>response = \<lparr>status = 200, body = Result_body result_plain\<rparr>, background = None,
        engine_calls = [(weekly3, 4, ''W-MON'')]\<rparr>"
    using e [THEN conjunct1, rule_format, OF disjI2, OF f, THEN conjunct1]
    by (simp only: plain_fields truthy.simps sync_plain)
  have 2: "background (predict pandas_ref persistence 3 0 (Some (JObj request_callback_first))) = None"
    by (rule c [THEN conjunct1, rule_format, OF disjI2, OF g, THEN conjunct2])
  have t: "first_indicator request_webhook_first = Some (''webhook'', JStr ''http://example.org/hook'')
            \<and> truthy (JStr ''http://example.org/hook'')"
    by (simp add: indicators)
  have 3: "response (predict pandas_ref persistence 3 0 (Some (JObj request_webhook_first))) =
       \<lparr>status = 200, body = Ack_body 0 (JStr ''http://example.org/hook'')\<rparr>"
    by (rule h [THEN conjunct2, THEN conjunct1, rule_format, OF t, THEN conjunct1])
  from indicators(1) 1 indicators(3) 2 indicators(2) 3 show ?thesis by (intro conjI)
qed

text \<open>
  Against claim C10 as stated: the request holds the indicator key \<open>callback\<close> with the
  empty string, a falsy value, and is still acknowledged and run in the background,
  because the indicator key \<open>webhook\<close> comes first and holds an address.
\<close>

theorem falsy_callback_counterexample:
  "(''callback'', JStr '''') \<in> set request_webhook_first
   \<and> str_lower ''callback'' \<in> set CALLBACK_KEYS
   \<and> \<not> truthy (JStr '''')
   \<and> body (response (predict pandas_ref persistence 3 0 (Some (JObj request_webhook_first)))) =
       Ack_body 0 (JStr ''http://example.org/hook'')
   \<and> background (predict pandas_ref persistence 3 0 (Some (JObj request_webhook_first))) \<noteq> None"
proof -
  have a: "(''callback'', JStr '''') \<in> set request_webhook_first"
    by (simp add: request_webhook_first_def)
  have b: "str_lower ''callback'' \<in> set CALLBACK_KEYS" by code_simp
  have c: "find_callback request_webhook_first = JStr ''http://example.org/hook''"
    by code_simp
  have "predict pandas_ref persistence 3 0 (Some (JObj request_webhook_first)) =
          \<lparr>response = \<lparr>status = 200, body = Ack_body 0 (JStr ''http://example.org/hook'')\<rparr>,
           background = Some (Background (JStr ''http://example.org/hook'') 0
             (build_pipeline ''weekly'' ''weekly'' 4 JNull False 3) (map JObj weekly_records3)),
           engine_calls = []\<rparr>"
    by (simp add: predict_def Let_def plain_fields c records_nonempty [simplified])
  with a b show ?thesis by simp
qed

section \<open>Feature columns do not reach the forecast\<close>

lemma positions_from_nth:
  "j \<in> set (positions_from i xs c) \<Longrightarrow> i \<le> j \<and> j < i + length xs \<and> xs ! (j - i) = c"
proof (induction xs arbitrary: i)
  case Nil
  then show ?case by simp
next
  case (Cons x xs)
  show ?case
  proof (cases "j = i")
    case True
    with Cons.prems show ?thesis
      using Cons.IH [of "Suc i"] by (auto split: if_splits)
  next
    case False
    with Cons.prems have "j \<in> set (positions_from (Suc i) xs c)" by (auto split: if_splits)
    from Cons.IH [OF this] show ?thesis by (auto simp: nth_Cons')
  qed
qed

lemma positions_label: "j \<in> set (positions cols c) \<Longrightarrow> cols ! j = c"
  using positions_from_nth [of j 0 cols c] by (simp add: positions_def)

lemma positions_from_absent: "c \<notin> set zs \<Longrightarrow> positions_from i zs c = []"
  by (induction zs arbitrary: i) auto

lemma positions_from_replicate:
  "c \<notin> set zs \<Longrightarrow> positions_from i (replicate k c @ zs) c = [i..<i + k]"
proof (induction k arbitrary: i)
  case 0
  then show ?case by (simp add: positions_from_absent)
next
  case (Suc k)
  from Suc.IH [OF Suc.prems, of "Suc i"] show ?case by (simp add: upt_rec)
qed

lemma positions_replicate:
  "c \<notin> set zs \<Longrightarrow> positions (replicate k c @ zs) c = [0..<k]"
  using positions_from_replicate [of c zs 0 k] by (simp add: positions_def)

lemma map_const_replicate: "(\<And>x. x \<in> set xs \<Longrightarrow> f x = c) \<Longrightarrow> map f xs = replicate (length xs) c"
  by (induction xs) auto

lemma labels_of_positions: "map (\<lambda>j. cols ! j) (positions cols c) = replicate (length (positions cols c)) c"
  by (rule map_const_replicate) (rule positions_label)

lemma labels_of_kept:
  "c \<notin> set kept \<Longrightarrow> c \<notin> set (map (\<lambda>j. cols ! j) (concat (map (positions cols) kept)))"
  by (auto dest: positions_label)

lemma kept_labels_strings:
  "kept_labels cols (map JStr fc) = Inr (filter (\<lambda>s. s \<in> set cols) fc)"
  by (induction fc) auto

lemma insort_key_map:
  "(\<And>x. k' (F x) = k x) \<Longrightarrow> map F (insort_key k x xs) = insort_key k' (F x) (map F xs)"
  by (induction xs) auto

lemma sort_key_map:
  assumes "\<And>x. k' (F x) = k x"
  shows "map F (sort_key k xs) = sort_key k' (map F xs)"
  by (induction xs) (simp_all add: insort_key_map [of k' F k, OF assms])

lemma take_by_index: "map (\<lambda>i. (xs @ ys) ! i) [0..<length xs] = xs"
proof -
  have "map (\<lambda>i. (xs @ ys) ! i) [0..<length xs] = map (\<lambda>i. xs ! i) [0..<length xs]"
    by (rule map_cong) (simp_all add: nth_append)
  then show ?thesis by (simp add: map_nth)
qed

lemma y_cells_first:
  assumes "ypos \<noteq> []"
  shows "(map f ypos @ map f kp) ! 0 = map f ypos ! 0"
  using assms by (cases ypos) simp_all

lemma y_cells_all:
  "map (\<lambda>i. (map f ypos @ map f kp) ! i) [0..<length ypos] = map (\<lambda>i. map f ypos ! i) [0..<length ypos]"
  using take_by_index [of "map f ypos" "map f kp"] take_by_index [of "map f ypos" "[]"]
  by simp

lemma aggregate_ignores_kept:
  assumes y: "ypos \<noteq> []"
    and k: "''y'' \<notin> set (map (\<lambda>j. cols ! j) kp)"
    and l: "map (\<lambda>j. cols ! j) ypos = replicate (length ypos) ''y''"
  shows "aggregate_time_series P
           \<lparr>value_columns = map (\<lambda>j. cols ! j) (ypos @ kp),
            nrows = sort_key fst (map (\<lambda>tr. (fst tr, map (\<lambda>j. snd tr ! j) (ypos @ kp))) present)\<rparr>
           level wr mr =
         aggregate_time_series P
           \<lparr>value_columns = map (\<lambda>j. cols ! j) ypos,
            nrows = sort_key fst (map (\<lambda>tr. (fst tr, map (\<lambda>j. snd tr ! j) ypos)) present)\<rparr>
           level wr mr"
proof -
  let ?H1 = "\<lambda>tr :: int \<times> jval list. (fst tr, map (\<lambda>j. snd tr ! j) (ypos @ kp))"
  let ?H0 = "\<lambda>tr :: int \<times> jval list. (fst tr, map (\<lambda>j. snd tr ! j) ypos)"
  have p1: "positions (map (\<lambda>j. cols ! j) ypos @ map (\<lambda>j. cols ! j) kp) ''y'' = [0..<length ypos]"
    using positions_replicate [OF k, of "length ypos"] by (simp add: l)
  have p0: "positions (map (\<lambda>j. cols ! j) ypos) ''y'' = [0..<length ypos]"
    using positions_replicate [of "''y''" "[]" "length ypos"] by (simp add: l)
  have first: "map (\<lambda>tr. (fst tr, snd tr ! 0)) (sort_key fst (map ?H1 present)) =
               map (\<lambda>tr. (fst tr, snd tr ! 0)) (sort_key fst (map ?H0 present))"
  proof -
    have "map (\<lambda>tr. (fst tr, snd tr ! 0)) (map ?H1 present) =
          map (\<lambda>tr. (fst tr, snd tr ! 0)) (map ?H0 present)"
      by (simp add: y_cells_first [OF y])
    then show ?thesis
      by (simp only: sort_key_map [where F = "\<lambda>tr :: int \<times> jval list. (fst tr, snd tr ! 0)"
            and k = fst and k' = fst, simplified])
  qed
  have all: "map (\<lambda>tr. (fst tr, map (\<lambda>i. snd tr ! i) [0..<length ypos])) (sort_key fst (map ?H1 present)) =
             map (\<lambda>tr. (fst tr, map (\<lambda>i. snd tr ! i) [0..<length ypos])) (sort_key fst (map ?H0 present))"
  proof -
    have "map (\<lambda>tr. (fst tr, map (\<lambda>i. snd tr ! i) [0..<length ypos])) (map ?H1 present) =
          map (\<lambda>tr. (fst tr, map (\<lambda>i. snd tr ! i) [0..<length ypos])) (map ?H0 present)"
      by (simp add: y_cells_all)
    then show ?thesis
      by (simp only: sort_key_map [where F = "\<lambda>tr :: int \<times> jval list.
              (fst tr, map (\<lambda>i. snd tr ! i) [0..<length ypos])"
            and k = fst and k' = fst, simplified])
  qed
  show ?thesis
  proof (cases "[0..<length ypos]")
    case Nil
    with y show ?thesis by simp
  next
    case (Cons j js)
    then have j: "j = 0" by (simp add: upt_eq_Cons_conv)
    show ?thesis
    proof (cases js)
      case Nil
      with Cons j first show ?thesis
        by (simp add: aggregate_time_series_def p1 p0 del: upt_eq_Cons_conv)
    next
      case (Cons j' others)
      with \<open>[0..<length ypos] = j # js\<close> have e: "[0..<length ypos] = j # j' # others" by simp
      from all show ?thesis
        unfolding e by (simp add: aggregate_time_series_def p1 p0 e)
    qed
  qed
qed

lemma normalize_then_aggregate:
  assumes "''ds'' \<notin> set fc" and "''y'' \<notin> set fc"
  shows "(case normalize_schema P df m (JArr (map JStr fc)) of
            Inl e \<Rightarrow> Inl e
          | Inr nf \<Rightarrow> aggregate_time_series P nf level wr mr) =
         (case normalize_schema P df m (JArr []) of
            Inl e \<Rightarrow> Inl e
          | Inr nf \<Rightarrow> aggregate_time_series P nf level wr mr)"
proof -
  let ?cols = "map (rename_col m) (columns df)"
  let ?kept = "filter (\<lambda>s. s \<in> set ?cols) fc"
  let ?ypos = "positions ?cols ''y''"
  have ds: "''ds'' \<notin> set ?kept" using assms(1) by simp
  have kl: "''y'' \<notin> set (map (\<lambda>j. ?cols ! j) (concat (map (positions ?cols) ?kept)))"
    by (rule labels_of_kept) (use assms(2) in simp)
  show ?thesis
  proof (cases "positions ?cols ''ds''")
    case Nil
    then show ?thesis by (simp add: normalize_schema_def)
  next
    case (Cons i rest)
    show ?thesis
    proof (cases rest)
      case (Cons i' others)
      with \<open>positions ?cols ''ds'' = i # rest\<close> show ?thesis by (simp add: normalize_schema_def)
    next
      case Nil
      with \<open>positions ?cols ''ds'' = i # rest\<close> have one: "positions ?cols ''ds'' = [i]" by simp
      show ?thesis
      proof (cases "?ypos = []")
        case True
        with one show ?thesis by (simp add: normalize_schema_def Let_def)
      next
        case False
        note agg = aggregate_ignores_kept [OF False kl labels_of_positions, of P _ level wr mr]
        from one False assms(1) show ?thesis
          by (simp add: normalize_schema_def Let_def kept_labels_strings agg [simplified])
      qed
    qed
  qed
qed

lemma aggregated_features:
  assumes "''ds'' \<notin> set fc" and "''y'' \<notin> set fc"
  shows "aggregated P (pl\<lparr>feature_columns := JArr (map JStr fc)\<rparr>) records =
         aggregated P (pl\<lparr>feature_columns := JArr []\<rparr>) records"
proof -
  have "aggregated P (pl\<lparr>feature_columns := fcs\<rparr>) records =
          (let df = from_records records in
           if df_empty df then Inl EmptyDataset
           else (case detect_columns P df of
                   Inl e \<Rightarrow> Inl e
                 | Inr detected \<Rightarrow>
                     (case normalize_schema P df detected fcs of
                        Inl e \<Rightarrow> Inl e
                      | Inr nf \<Rightarrow> aggregate_time_series P nf (aggregation_level pl)
                                    (weekly_rule pl) (monthly_rule pl))))" for fcs
    by (simp add: aggregated_def Let_def cong: sum.case_cong if_cong)
  then show ?thesis
    by (simp add: Let_def normalize_then_aggregate [OF assms] split: sum.splits)
qed

lemma run_features:
  assumes "aggregated P (pl\<lparr>feature_columns := a\<rparr>) records =
           aggregated P (pl\<lparr>feature_columns := b\<rparr>) records"
  shows "run P E (pl\<lparr>feature_columns := a\<rparr>) records = run P E (pl\<lparr>feature_columns := b\<rparr>) records"
proof -
  have i: "prediction_item P (pl\<lparr>feature_columns := c\<rparr>) = prediction_item P pl" for c
    by (intro ext) (simp add: prediction_item_def)
  have n: "normalize_output P (pl\<lparr>feature_columns := c\<rparr>) fmd = normalize_output P pl fmd" for c fmd
    by (simp add: normalize_output_def Let_def i cong: if_cong)
  have f: "forecaster_of (pl\<lparr>feature_columns := c\<rparr>) = forecaster_of pl" for c
    by (simp add: forecaster_of_def)
  have p: "prepare P (pl\<lparr>feature_columns := a\<rparr>) records = prepare P (pl\<lparr>feature_columns := b\<rparr>) records"
    by (simp add: prepare_def assms)
  show ?thesis by (simp add: run_def p n f cong: sum.case_cong if_cong prod.case_cong)
qed

text \<open>
  Feature lists that leave the canonical names alone. For every input dataset and any two
  lists of feature column names neither of which contains \<open>ds\<close> or \<open>y\<close>, the pipeline
  run is the same: the same engine calls and the same outcome. The aggregator reads only
  the column labelled \<open>y\<close> and drops the retained columns.
\<close>

theorem feature_columns_irrelevant:
  assumes "''ds'' \<notin> set fc1" and "''y'' \<notin> set fc1"
    and "''ds'' \<notin> set fc2" and "''y'' \<notin> set fc2"
  shows "run P E (pl\<lparr>feature_columns := JArr (map JStr fc1)\<rparr>) records =
         run P E (pl\<lparr>feature_columns := JArr (map JStr fc2)\<rparr>) records"
proof -
  have "aggregated P (pl\<lparr>feature_columns := JArr (map JStr fc1)\<rparr>) records =
        aggregated P (pl\<lparr>feature_columns := JArr (map JStr fc2)\<rparr>) records"
    by (simp only: aggregated_features [OF assms(1,2)] aggregated_features [OF assms(3,4)])
  then show ?thesis by (rule run_features)
qed

lemma prepare_store:
  "prepare pandas_ref (pipeline_plain\<lparr>feature_columns := JArr [JStr ''store'', JStr ''region'']\<rparr>)
     store_records3 = Inr weekly3"
  by code_simp

lemma prepare_ds_feature:
  "prepare pandas_ref (pipeline_plain\<lparr>feature_columns := JArr [JStr ''ds'']\<rparr>) weekly_records3 =
     Inl (Raised PyValueError ''The column label ds is not unique.'')"
  by code_simp

lemma pipeline_plain_features: "pipeline_plain\<lparr>feature_columns := JArr []\<rparr> = pipeline_plain"
  by (simp add: pipeline_plain_def build_pipeline_def)

lemma run_store:
  "run pandas_ref persistence (pipeline_plain\<lparr>feature_columns := JArr [JStr ''store'', JStr ''region'']\<rparr>)
     store_records3 = ([(weekly3, 4, ''W-MON'')], Inr result_plain)"
  by (simp add: run_def prepare_store pipeline_plain_fields weekly3_facts fit_predict_def
        forecaster_of_def freq_rule_def persistence_weekly3 n_val_def summarise_def null_metrics_def
        normalize_output_def prediction_item_def row_get_def floor0_def bound_json_def
        algorithm_label date_of_min_def date_of_max_def iso_dates result_plain_def)

theorem feature_columns_irrelevant_witness:
  "''ds'' \<notin> set [''store'', ''region''] \<and> ''y'' \<notin> set [''store'', ''region'']
   \<and> run pandas_ref persistence (pipeline_plain\<lparr>feature_columns := JArr [JStr ''store'', JStr ''region'']\<rparr>)
         store_records3 = ([(weekly3, 4, ''W-MON'')], Inr result_plain)
   \<and> run pandas_ref persistence (pipeline_plain\<lparr>feature_columns := JArr []\<rparr>)
         store_records3 = ([(weekly3, 4, ''W-MON'')], Inr result_plain)"
proof -
  have a: "''ds'' \<notin> set [''store'', ''region'']" by simp
  have b: "''y'' \<notin> set [''store'', ''region'']" by simp
  have c: "''ds'' \<notin> set ([] :: string list)" by simp
  have d: "''y'' \<notin> set ([] :: string list)" by simp
  note t = feature_columns_irrelevant [OF a b c d, of pandas_ref persistence pipeline_plain store_records3]
  from t [symmetric] have "run pandas_ref persistence (pipeline_plain\<lparr>feature_columns := JArr []\<rparr>)
         store_records3 = ([(weekly3, 4, ''W-MON'')], Inr result_plain)"
    by (simp only: list.map run_store)
  with a b run_store show ?thesis by (intro conjI)
qed

lemma request_ds_feature_fields:
  "payload_get request_ds_feature ''data'' = JArr (map JObj weekly_records3)"
  "payload_get request_ds_feature ''prediction_period'' = JInt 4"
  "payload_get request_ds_feature ''prediction_frequency'' = JStr ''weekly''"
  "payload_get request_ds_feature ''feature_columns'' = JArr [JStr ''ds'']"
  "payload_get request_ds_feature ''confidence_interval'' = JNull"
  by (simp_all add: payload_get_def request_ds_feature_def request_plain_def)

lemma request_ds_feature_callback: "find_callback request_ds_feature = JNull"
  by code_simp

lemma pipeline_ds_feature:
  "build_pipeline ''weekly'' ''weekly'' 4 (JArr [JStr ''ds'']) False 3 =
     pipeline_plain\<lparr>feature_columns := JArr [JStr ''ds'']\<rparr>"
  by (simp add: pipeline_plain_def build_pipeline_def)

lemma run_ds_feature:
  "run pandas_ref persistence (pipeline_plain\<lparr>feature_columns := JArr [JStr ''ds'']\<rparr>) weekly_records3 =
     ([], Inl (Raised PyValueError ''The column label ds is not unique.''))"
  by (simp add: run_def prepare_ds_feature)

lemma predict_ds_feature:
  "response (predict pandas_ref persistence 3 0 (Some (JObj request_ds_feature))) =
     \<lparr>status = 422,
      body = Error_body ''insufficient_data''
               (Exception_text (Raised PyValueError ''The column label ds is not unique.''))\<rparr>"
proof -
  have ne: "weekly_records3 \<noteq> []" by (simp add: weekly_records3_def)
  show ?thesis
    by (simp add: predict_def Let_def request_ds_feature_fields ne pipeline_ds_feature
          request_ds_feature_callback run_data_def request_plain_records run_ds_feature
          respond_sync_def unprocessable_def reply_def)
qed

text \<open>
  Claim C9. The forecast must not depend on the requested feature columns: any two
  \<open>feature_columns\<close> lists give the same predictions, model\_info and data\_summary. The
  code does not do this for a list that names the canonical column \<open>ds\<close>: the requested
  names are looked up among the renamed columns, \<open>ds\<close> is selected a second time, and
  sorting by the duplicated label raises. The same three weekly records are forecast with
  an empty list and rejected with status 422 with the list \<open>["ds"]\<close>.
\<close>

theorem feature_columns_counterexample:
  "run pandas_ref persistence (pipeline_plain\<lparr>feature_columns := JArr [JStr ''ds'']\<rparr>) weekly_records3 =
     ([], Inl (Raised PyValueError ''The column label ds is not unique.''))
   \<and> run pandas_ref persistence (pipeline_plain\<lparr>feature_columns := JArr []\<rparr>) weekly_records3 =
     ([(weekly3, 4, ''W-MON'')], Inr result_plain)
   \<and> response (predict pandas_ref persistence 3 0 (Some (JObj request_plain))) =
       \<lparr>status = 200, body = Result_body result_plain\<rparr>
   \<and> response (predict pandas_ref persistence 3 0 (Some (JObj request_ds_feature))) =
       \<lparr>status = 422,
        body = Error_body ''insufficient_data''
                 (Exception_text (Raised PyValueError ''The column label ds is not unique.''))\<rparr>"
proof -
  have a: "run pandas_ref persistence (pipeline_plain\<lparr>feature_columns := JArr []\<rparr>) weekly_records3 =
     ([(weekly3, 4, ''W-MON'')], Inr result_plain)"
    by (simp only: pipeline_plain_features run_plain)
  have b: "response (predict pandas_ref persistence 3 0 (Some (JObj request_plain))) =
       \<lparr>status = 200, body = Result_body result_plain\<rparr>"
    by (simp add: predict_plain)
  from run_ds_feature a b predict_ds_feature show ?thesis by (intro conjI)
qed

section \<open>Running the sanitizer on its own output\<close>































end
